theory Spec2Isabelle
  imports Complex_Main "HOL-Library.Sublist"
begin

section \<open>Strings and numbers of the host language\<close>

text \<open>
  A JavaScript string is modelled as a \<open>string\<close>: one \<open>char\<close> per code unit, for
  texts whose code units lie in the 8-bit range. \<open>length\<close> is \<open>.length\<close>,
  \<open>take 200\<close> is \<open>.substring(0, 200)\<close>.
\<close>

definition lowerChar :: "char \<Rightarrow> char" where
  "lowerChar c =
     (let n = (of_char c :: nat)
      in if (65 \<le> n \<and> n \<le> 90) \<or> (192 \<le> n \<and> n \<le> 222 \<and> n \<noteq> 215)
         then char_of (n + 32) else c)"

definition toLowerCase :: "string \<Rightarrow> string" where
  "toLowerCase s = map lowerChar s"

text \<open>ASCII lowercase, the comparison selectors use where they ignore case.\<close>

definition asciiLower :: "string \<Rightarrow> string" where
  "asciiLower s =
     map (\<lambda>c. let n = (of_char c :: nat)
               in if 65 \<le> n \<and> n \<le> 90 then char_of (n + 32) else c) s"

fun startsWith :: "string \<Rightarrow> string \<Rightarrow> bool" where
  "startsWith s [] = True"
| "startsWith [] (p # ps) = False"
| "startsWith (c # cs) (p # ps) = (c = p \<and> startsWith cs ps)"

fun strIncludes :: "string \<Rightarrow> string \<Rightarrow> bool" where
  "strIncludes [] sub = startsWith [] sub"
| "strIncludes (c # cs) sub = (startsWith (c # cs) sub \<or> strIncludes cs sub)"

definition digitChar :: "nat \<Rightarrow> char" where
  "digitChar d = char_of (48 + d)"

fun showNat :: "nat \<Rightarrow> string" where
  "showNat n = (if n < 10 then [digitChar n] else showNat (n div 10) @ [digitChar (n mod 10)])"

declare showNat.simps [simp del]

definition showInt :: "int \<Rightarrow> string" where
  "showInt i = (if i < 0 then CHR ''-'' # showNat (nat (- i)) else showNat (nat i))"

text \<open>\<open>Math.round\<close>: the nearest integer, halves towards plus infinity.\<close>

definition mathRound :: "real \<Rightarrow> int" where
  "mathRound x = \<lfloor>x + 1 / 2\<rfloor>"

text \<open>
  \<open>xs.slice(0, n)\<close>: a negative end counts from the end of the array.
\<close>

definition sliceFromStart :: "int \<Rightarrow> 'a list \<Rightarrow> 'a list" where
  "sliceFromStart n xs =
     (if n < 0 then take (nat (max (int (length xs) + n) 0)) xs else take (nat n) xs)"

text \<open>
  \<open>[...new Set(xs)]\<close>: the distinct values in the order of their first occurrence.
\<close>

fun setInsertionOrder :: "'a list \<Rightarrow> 'a list \<Rightarrow> 'a list" where
  "setInsertionOrder seen [] = seen"
| "setInsertionOrder seen (x # xs) =
     (if x \<in> set seen then setInsertionOrder seen xs else setInsertionOrder (seen @ [x]) xs)"

definition uniqueValues :: "'a list \<Rightarrow> 'a list" where
  "uniqueValues xs = setInsertionOrder [] xs"

section \<open>The document a probe sees\<close>

text \<open>
  An element carries what the probes read from it: its attributes, its rendered box
  (\<open>getBoundingClientRect\<close>), its computed \<open>display\<close> and \<open>visibility\<close>, whether
  \<open>querySelector('input[type="email"]')\<close> finds a descendant, and its \<open>textContent\<close>
  (a string for every element, so \<open>textContent || ''\<close> is the text itself).
\<close>

record element =
  attrs :: "(string \<times> string) list"
  rectWidth :: real
  rectHeight :: real
  display :: string
  visibility :: string
  emailInput :: bool
  textContent :: string

definition getAttribute :: "element \<Rightarrow> string \<Rightarrow> string option" where
  "getAttribute e name = map_of (attrs e) name"

definition className :: "element \<Rightarrow> string" where
  "className e = (case getAttribute e ''class'' of None \<Rightarrow> [] | Some v \<Rightarrow> v)"

definition elementId :: "element \<Rightarrow> string" where
  "elementId e = (case getAttribute e ''id'' of None \<Rightarrow> [] | Some v \<Rightarrow> v)"

definition isSpace :: "char \<Rightarrow> bool" where
  "isSpace c = (of_char c \<in> {9, 10, 12, 13, 32 :: nat})"

fun tokens :: "string \<Rightarrow> string \<Rightarrow> string list" where
  "tokens cur [] = (if cur = [] then [] else [cur])"
| "tokens cur (c # cs) =
     (if isSpace c then (if cur = [] then tokens [] cs else cur # tokens [] cs)
      else tokens (cur @ [c]) cs)"

text \<open>
  The two selector forms the probes use: \<open>[name*="value"]\<close> (the attribute exists and
  its value contains the text, compared as it is) and \<open>.name\<close> (the class list holds
  the token). The first argument says whether the document is in quirks mode: there a
  class selector compares the token ASCII case-insensitively, otherwise as it is.
\<close>

datatype selector = AttrContains string string | ClassToken string

fun matches :: "bool \<Rightarrow> selector \<Rightarrow> element \<Rightarrow> bool" where
  "matches quirks (AttrContains name v) e =
     (case getAttribute e name of None \<Rightarrow> False | Some x \<Rightarrow> v \<noteq> [] \<and> strIncludes x v)"
| "matches quirks (ClassToken c) e =
     (if quirks then asciiLower c \<in> set (map asciiLower (tokens [] (className e)))
      else c \<in> set (tokens [] (className e)))"

record timing =
  fetchStart :: real
  domContentLoadedEventEnd :: real
  loadEventEnd :: real

record page =
  quirksMode :: bool
  globals :: "(string \<times> bool) list"
  scriptSrcs :: "string list"
  linkHrefs :: "string list"
  metaGenerator :: "string option"
  metaDescription :: "string option"
  elements :: "element list"
  anchorHrefs :: "string list"
  bodyText :: string
  title :: string
  locationHref :: string
  protocol :: string
  h1Texts :: "string list"
  imagesWithoutAlt :: nat
  imagesLength :: nat
  linksLength :: nat
  scriptsLength :: nat
  navigationEntry :: "timing option"
  firstPaint :: "real option"
  performanceNow :: real

definition querySelectorAll :: "page \<Rightarrow> selector \<Rightarrow> element list" where
  "querySelectorAll doc sel = filter (matches (quirksMode doc) sel) (elements doc)"

definition truthy :: "page \<Rightarrow> string \<Rightarrow> bool" where
  "truthy doc name = (case map_of (globals doc) name of None \<Rightarrow> False | Some b \<Rightarrow> b)"

definition scriptSrcContains :: "page \<Rightarrow> string \<Rightarrow> bool" where
  "scriptSrcContains doc v = list_ex (\<lambda>src. strIncludes src v) (scriptSrcs doc)"

section \<open>Popup and email-platform probes\<close>

text \<open>The callback of the first \<open>page.evaluate\<close>: one test per platform, in order.\<close>

definition detectEmailPlatforms :: "page \<Rightarrow> string list" where
  "detectEmailPlatforms doc =
     (let platforms = [];
          platforms = (if truthy doc ''klaviyo'' \<or> truthy doc ''_learnq'' \<or> scriptSrcContains doc ''klaviyo''
                       then platforms @ [''Klaviyo''] else platforms);
          platforms = (if truthy doc ''mc4wp'' \<or> scriptSrcContains doc ''mailchimp'' \<or>
                          list_ex (\<lambda>e. matches (quirksMode doc) (AttrContains ''class'' ''mailchimp'') e \<or>
                                        matches (quirksMode doc) (AttrContains ''id'' ''mailchimp'') e)
                            (elements doc)
                       then platforms @ [''Mailchimp''] else platforms);
          platforms = (if truthy doc ''omnisend'' \<or> scriptSrcContains doc ''omnisend''
                       then platforms @ [''Omnisend''] else platforms);
          platforms = (if truthy doc ''privy'' \<or> scriptSrcContains doc ''privy''
                       then platforms @ [''Privy''] else platforms);
          platforms = (if truthy doc ''ju'' \<or> scriptSrcContains doc ''justuno''
                       then platforms @ [''Justuno''] else platforms);
          platforms = (if truthy doc ''om'' \<or> scriptSrcContains doc ''optinmonster''
                       then platforms @ [''OptinMonster''] else platforms);
          platforms = (if truthy doc ''wisepops'' \<or> scriptSrcContains doc ''wisepops''
                       then platforms @ [''Wisepops''] else platforms);
          platforms = (if truthy doc ''sumo'' \<or> scriptSrcContains doc ''sumo.com''
                       then platforms @ [''Sumo''] else platforms)
      in platforms)"

definition popupSelectors :: "selector list" where
  "popupSelectors =
     [AttrContains ''class'' ''popup'',
      AttrContains ''class'' ''modal'',
      AttrContains ''class'' ''overlay'',
      AttrContains ''class'' ''lightbox'',
      AttrContains ''id'' ''popup'',
      AttrContains ''id'' ''modal'',
      AttrContains ''class'' ''newsletter'',
      AttrContains ''class'' ''email-signup'',
      AttrContains ''class'' ''subscription'',
      AttrContains ''data-testid'' ''popup'',
      AttrContains ''data-testid'' ''modal'',
      ClassToken ''klaviyo-form'',
      AttrContains ''class'' ''klaviyo'',
      ClassToken ''privy-popup'',
      AttrContains ''style'' ''position: fixed'',
      AttrContains ''style'' ''z-index: 999'',
      AttrContains ''style'' ''z-index: 9999'']"

record popup =
  selector :: selector
  hasEmailInput :: bool
  popupText :: string
  classes :: string
  popupId :: string
  width :: int
  height :: int

text \<open>The test an element must pass to be recorded.\<close>

definition qualifies :: "element \<Rightarrow> bool" where
  "qualifies e =
     (let isVisible = (rectWidth e > 0 \<and> rectHeight e > 0 \<and>
                       display e \<noteq> ''none'' \<and> visibility e \<noteq> ''hidden'');
          hasEmail = emailInput e;
          txt = textContent e;
          hasSubscribeText = (strIncludes (toLowerCase txt) ''subscribe'' \<or>
                              strIncludes (toLowerCase txt) ''newsletter'' \<or>
                              strIncludes (toLowerCase txt) ''email'' \<or>
                              strIncludes (toLowerCase txt) ''discount'' \<or>
                              strIncludes (toLowerCase txt) ''offer'' \<or>
                              strIncludes (toLowerCase txt) ''save'')
      in isVisible \<and> (hasEmail \<or> hasSubscribeText) \<and> length txt > 10)"

text \<open>The descriptor pushed for a recorded element.\<close>

definition describeElement :: "selector \<Rightarrow> element \<Rightarrow> popup" where
  "describeElement sel e =
     \<lparr>selector = sel, hasEmailInput = emailInput e, popupText = take 200 (textContent e),
      classes = className e, popupId = elementId e,
      width = mathRound (rectWidth e), height = mathRound (rectHeight e)\<rparr>"

text \<open>
  The body of the inner \<open>forEach\<close>: one element of one selector's matches. The array
  \<open>popups\<close> is passed in and returned, with the descriptor pushed when the test holds.
\<close>

definition inspectElement :: "selector \<Rightarrow> popup list \<Rightarrow> element \<Rightarrow> popup list" where
  "inspectElement sel popups e =
     (if qualifies e then popups @ [describeElement sel e] else popups)"

text \<open>
  The callback of the second \<open>page.evaluate\<close>: for each selector in turn, each of its
  matches in document order. No selector of the list is malformed and no read of an
  element throws, so the inner \<open>try\<close> never reaches its handler.
\<close>

definition scanPopups :: "page \<Rightarrow> popup list" where
  "scanPopups doc =
     foldl (\<lambda>popups sel. foldl (inspectElement sel) popups (querySelectorAll doc sel))
       [] popupSelectors"

definition discountText :: "popup \<Rightarrow> bool" where
  "discountText p =
     (let t = toLowerCase (popupText p)
      in strIncludes t ''discount'' \<or> strIncludes t ''save'' \<or>
         strIncludes t ''%'' \<or> strIncludes t ''off'')"

definition classifyPopupType :: "popup list \<Rightarrow> string" where
  "classifyPopupType popupElements =
     (let hasEmail = list_ex hasEmailInput popupElements;
          hasDiscountText = list_ex discountText popupElements
      in if hasEmail \<and> hasDiscountText then ''Email + Discount''
         else if hasEmail then ''Email Signup''
         else if hasDiscountText then ''Discount Offer''
         else ''General Popup'')"

section \<open>Faults, the browser session and the outside world\<close>

datatype error = Error string | TypeError string | ReferenceError string

fun message :: "error \<Rightarrow> string" where
  "message (Error m) = m"
| "message (TypeError m) = m"
| "message (ReferenceError m) = m"

record viewport =
  vpWidth :: nat
  vpHeight :: nat

definition defaultViewport :: viewport where
  "defaultViewport = \<lparr>vpWidth = 1920, vpHeight = 1080\<rparr>"

definition mobileViewport :: viewport where
  "mobileViewport = \<lparr>vpWidth = 375, vpHeight = 667\<rparr>"

text \<open>
  The one page shared by all audits: its viewport, the document it shows, and the number
  of external calls made so far.
\<close>

record session =
  currentViewport :: viewport
  document :: page
  tick :: nat

text \<open>
  What the auditor cannot decide: whether the external call made at a given tick
  rejects, the document a navigation made at a tick loads (for the viewport and URL),
  the host name the URL parser extracts (\<open>None\<close> when \<open>new URL\<close> throws), the clock,
  and \<open>path.join\<close>.
\<close>

record world =
  throws :: "nat \<Rightarrow> error option"
  serves :: "nat \<Rightarrow> viewport \<Rightarrow> string \<Rightarrow> page"
  hostnameOf :: "string \<Rightarrow> string option"
  dateNow :: "nat \<Rightarrow> int"
  pathJoin :: "string \<Rightarrow> string \<Rightarrow> string"

record settings =
  maxProductPages :: "int option"
  slowLoadTime :: "real option"

type_synonym 'a outcome = "(error + 'a) \<times> session"

definition andThen :: "'a outcome \<Rightarrow> ('a \<Rightarrow> session \<Rightarrow> 'b outcome) \<Rightarrow> 'b outcome" where
  "andThen r k = (case r of (Inl e, s) \<Rightarrow> (Inl e, s) | (Inr x, s) \<Rightarrow> k x s)"

text \<open>An awaited external call: it takes one tick, and the world says whether it rejects.\<close>

definition call :: "world \<Rightarrow> session \<Rightarrow> unit outcome" where
  "call w s =
     (case throws w (tick s) of
        Some e \<Rightarrow> (Inl e, s\<lparr>tick := Suc (tick s)\<rparr>)
      | None \<Rightarrow> (Inr (), s\<lparr>tick := Suc (tick s)\<rparr>))"

definition setViewport :: "world \<Rightarrow> viewport \<Rightarrow> session \<Rightarrow> unit outcome" where
  "setViewport w vp s = andThen (call w s) (\<lambda>_ s'. (Inr (), s'\<lparr>currentViewport := vp\<rparr>))"

definition goto :: "world \<Rightarrow> string \<Rightarrow> session \<Rightarrow> unit outcome" where
  "goto w url s =
     andThen (call w s)
       (\<lambda>_ s'. (Inr (), s'\<lparr>document := serves w (tick s) (currentViewport s) url\<rparr>))"

text \<open>
  \<open>page.evaluate\<close> (and \<open>page.$\<close>, \<open>page.$$eval\<close>): the call itself may reject, and so
  may the callback run on the document.
\<close>

definition evaluate :: "world \<Rightarrow> (page \<Rightarrow> error + 'a) \<Rightarrow> session \<Rightarrow> 'a outcome" where
  "evaluate w f s = andThen (call w s) (\<lambda>_ s'. (f (document s'), s'))"

section \<open>Popup detection\<close>

record popupData =
  hasPopup :: bool
  popupType :: "string option"
  emailPlatform :: "string option"
  popupDetails :: "popup list"
  emailPlatformDetails :: "string list"

text \<open>
  \<open>detectPopupsAndEmailPlatforms\<close>. The object \<open>popupData\<close> is created before the
  \<open>try\<close> and returned after it; the handler only logs, so a fault returns the object
  as it stands at that moment. The settle delay does not change the result.
\<close>

definition detectPopupsAndEmailPlatforms :: "world \<Rightarrow> session \<Rightarrow> popupData outcome" where
  "detectPopupsAndEmailPlatforms w s0 =
     (let popupData = \<lparr>hasPopup = False, popupType = None, emailPlatform = None,
                       popupDetails = [], emailPlatformDetails = []\<rparr>
      in case evaluate w (\<lambda>doc. Inr (detectEmailPlatforms doc)) s0 of
           (Inl e, s1) \<Rightarrow> (Inr popupData, s1)
         | (Inr emailPlatforms, s1) \<Rightarrow>
             (let popupData = popupData\<lparr>emailPlatformDetails := emailPlatforms\<rparr>;
                  popupData = popupData\<lparr>emailPlatform :=
                     (if length emailPlatforms > 0 then Some (emailPlatforms ! 0) else None)\<rparr>
              in case evaluate w (\<lambda>doc. Inr (scanPopups doc)) s1 of
                   (Inl e, s2) \<Rightarrow> (Inr popupData, s2)
                 | (Inr popupElements, s2) \<Rightarrow>
                     (if length popupElements > 0
                      then (let popupData = popupData\<lparr>hasPopup := True\<rparr>;
                                popupData = popupData\<lparr>popupDetails := popupElements\<rparr>;
                                popupData = popupData\<lparr>popupType :=
                                   Some (classifyPopupType popupElements)\<rparr>
                            in (Inr popupData, s2))
                      else (Inr popupData, s2))))"

section \<open>Platform probes, page capture, metrics and checks\<close>

definition detectShopify :: "world \<Rightarrow> session \<Rightarrow> bool outcome" where
  "detectShopify w s0 =
     (case evaluate w (\<lambda>doc. Inr
              [list_ex (\<lambda>src. strIncludes src ''shopify'') (scriptSrcs doc),
               (case metaGenerator doc of None \<Rightarrow> False | Some c \<Rightarrow> strIncludes c ''Shopify''),
               map_of (globals doc) ''Shopify'' \<noteq> None,
               list_ex (\<lambda>h. strIncludes h ''shopify'') (linkHrefs doc)]) s0 of
        (Inl e, s1) \<Rightarrow> (Inr False, s1)
      | (Inr shopifyIndicators, s1) \<Rightarrow>
          (Inr (list_ex (\<lambda>indicator. indicator) shopifyIndicators), s1))"

text \<open>The regular expression \<open>\$\d+\<close>: a dollar sign directly followed by a digit.\<close>

fun dollarDigits :: "string \<Rightarrow> bool" where
  "dollarDigits (a # b # cs) =
     ((a = CHR ''$'' \<and> 48 \<le> (of_char b :: nat) \<and> (of_char b :: nat) \<le> 57) \<or> dollarDigits (b # cs))"
| "dollarDigits cs = False"

definition ecommerceIndicators :: "page \<Rightarrow> bool" where
  "ecommerceIndicators doc =
     (let txt = toLowerCase (bodyText doc);
          hasAddToCart = (strIncludes txt ''add to cart'' \<or>
             list_ex (\<lambda>e. matches (quirksMode doc) (AttrContains ''class'' ''add-to-cart'') e \<or>
                           matches (quirksMode doc) (AttrContains ''id'' ''add-to-cart'') e)
               (elements doc));
          hasPrice = (list_ex (\<lambda>e. matches (quirksMode doc) (AttrContains ''class'' ''price'') e \<or>
                                    matches (quirksMode doc) (AttrContains ''id'' ''price'') e)
                        (elements doc) \<or>
                      dollarDigits txt);
          hasProduct = (strIncludes txt ''product'' \<or> strIncludes txt ''shop'')
      in hasAddToCart \<or> (hasPrice \<and> hasProduct))"

definition detectEcommerce :: "world \<Rightarrow> session \<Rightarrow> bool outcome" where
  "detectEcommerce w s0 =
     (case evaluate w (\<lambda>doc. Inr (ecommerceIndicators doc)) s0 of
        (Inl e, s1) \<Rightarrow> (Inr False, s1)
      | (Inr found, s1) \<Rightarrow> (Inr found, s1))"

text \<open>The filter of \<open>findProductPages\<close>, on the resolved \<open>href\<close> of an anchor.\<close>

definition productHref :: "string \<Rightarrow> bool" where
  "productHref href =
     (let url = toLowerCase href
      in (strIncludes url ''/products/'' \<or> strIncludes url ''/product/'' \<or>
          strIncludes url ''/shop/'' \<or> strIncludes url ''/store/'') \<and>
         \<not> strIncludes url ''#'' \<and> startsWith href ''http'')"

definition maxPagesOf :: "settings \<Rightarrow> int" where
  "maxPagesOf cfg = (case maxProductPages cfg of None \<Rightarrow> 3 | Some n \<Rightarrow> if n = 0 then 3 else n)"

definition findProductPages :: "settings \<Rightarrow> world \<Rightarrow> session \<Rightarrow> string list outcome" where
  "findProductPages cfg w s0 =
     (let maxPages = maxPagesOf cfg
      in case evaluate w (\<lambda>doc. Inr (sliceFromStart (maxPages * 2)
                                         (filter productHref (anchorHrefs doc)))) s0 of
           (Inl e, s1) \<Rightarrow> (Inr [], s1)
         | (Inr productLinks, s1) \<Rightarrow> (Inr (uniqueValues productLinks), s1))"

record pageCapture =
  captureName :: string
  screenshot :: string
  capTitle :: string
  capUrl :: string
  description :: string
  h1 :: string
  loadTime :: real

text \<open>\<open>capturePage\<close>: the screenshot and the read of the page info both propagate a fault.\<close>

definition capturePage :: "world \<Rightarrow> string \<Rightarrow> string \<Rightarrow> session \<Rightarrow> pageCapture outcome" where
  "capturePage w pageName outputDir s0 =
     (let screenshotPath = pathJoin w outputDir (pageName @ ''.png'')
      in andThen (call w s0) (\<lambda>_ s1.
         andThen (evaluate w (\<lambda>doc. Inr doc) s1) (\<lambda>doc s2.
           (Inr \<lparr>captureName = pageName, screenshot = screenshotPath,
                 capTitle = title doc, capUrl = locationHref doc,
                 description = (case metaDescription doc of None \<Rightarrow> [] | Some c \<Rightarrow> c),
                 h1 = (case h1Texts doc of [] \<Rightarrow> [] | t # _ \<Rightarrow> t),
                 loadTime = performanceNow doc\<rparr>, s2))))"

record metrics =
  perfLoadTime :: int
  domContentLoaded :: int
  perfFirstPaint :: real
  imageCount :: nat
  linkCount :: nat
  scriptCount :: nat

definition undefinedRead :: "string \<Rightarrow> error" where
  "undefinedRead prop =
     TypeError (''Cannot read properties of undefined (reading '' @ [CHR 0x27] @ prop @ [CHR 0x27] @ '')'')"

definition getPerformanceMetrics :: "world \<Rightarrow> session \<Rightarrow> metrics option outcome" where
  "getPerformanceMetrics w s0 =
     (case evaluate w (\<lambda>doc.
              case navigationEntry doc of
                None \<Rightarrow> Inl (undefinedRead ''loadEventEnd'')
              | Some navigation \<Rightarrow> Inr
                  \<lparr>perfLoadTime = mathRound (loadEventEnd navigation - fetchStart navigation),
                   domContentLoaded =
                     mathRound (domContentLoadedEventEnd navigation - fetchStart navigation),
                   perfFirstPaint = (case firstPaint doc of None \<Rightarrow> 0 | Some t \<Rightarrow> t),
                   imageCount = imagesLength doc, linkCount = linksLength doc,
                   scriptCount = scriptsLength doc\<rparr>) s0 of
        (Inl e, s1) \<Rightarrow> (Inr None, s1)
      | (Inr m, s1) \<Rightarrow> (Inr (Some m), s1))"

record issue =
  issueType :: string
  issueText :: string

text \<open>
  The handler of \<open>runAutomatedChecks\<close>: it sees the array \<open>issues\<close> as the checks left
  it and pushes one entry.
\<close>

definition checksFailed :: "error \<Rightarrow> issue list \<Rightarrow> session \<Rightarrow> issue list outcome" where
  "checksFailed err issues s =
     (Inr (issues @ [\<lparr>issueType = ''Error'',
                       issueText = ''Could not complete all checks: '' @ message err\<rparr>]), s)"

definition slowThresholdOf :: "settings \<Rightarrow> real" where
  "slowThresholdOf cfg = (case slowLoadTime cfg of None \<Rightarrow> 3000 | Some t \<Rightarrow> if t = 0 then 3000 else t)"

definition runAutomatedChecks :: "settings \<Rightarrow> world \<Rightarrow> session \<Rightarrow> issue list outcome" where
  "runAutomatedChecks cfg w s0 =
     (let issues = []
      in case evaluate w (\<lambda>doc. Inr (metaDescription doc \<noteq> None)) s0 of
        (Inl e, s1) \<Rightarrow> checksFailed e issues s1
      | (Inr hasMetaDescription, s1) \<Rightarrow>
     (let issues = (if \<not> hasMetaDescription
                    then issues @ [\<lparr>issueType = ''SEO'', issueText = ''Missing meta description''\<rparr>]
                    else issues)
      in case evaluate w (\<lambda>doc. Inr (imagesWithoutAlt doc)) s1 of
        (Inl e, s2) \<Rightarrow> checksFailed e issues s2
      | (Inr withoutAlt, s2) \<Rightarrow>
     (let issues = (if withoutAlt > 0
                    then issues @ [\<lparr>issueType = ''Accessibility'',
                                     issueText = showNat withoutAlt @ '' images missing alt text''\<rparr>]
                    else issues)
      in case evaluate w (\<lambda>doc. Inr (length (h1Texts doc))) s2 of
        (Inl e, s3) \<Rightarrow> checksFailed e issues s3
      | (Inr h1Count, s3) \<Rightarrow>
     (let issues = (if h1Count = 0
                    then issues @ [\<lparr>issueType = ''SEO'', issueText = ''No H1 tag found''\<rparr>]
                    else if h1Count > 1
                    then issues @ [\<lparr>issueType = ''SEO'', issueText = ''Multiple H1 tags found''\<rparr>]
                    else issues)
      in case evaluate w (\<lambda>doc. Inr (protocol doc = ''https:'')) s3 of
        (Inl e, s4) \<Rightarrow> checksFailed e issues s4
      | (Inr isHTTPS, s4) \<Rightarrow>
     (let issues = (if \<not> isHTTPS
                    then issues @ [\<lparr>issueType = ''Security'', issueText = ''Site not using HTTPS''\<rparr>]
                    else issues)
      in case evaluate w (\<lambda>doc.
                case navigationEntry doc of
                  None \<Rightarrow> Inl (undefinedRead ''loadEventEnd'')
                | Some navigation \<Rightarrow> Inr (loadEventEnd navigation - fetchStart navigation)) s4 of
        (Inl e, s5) \<Rightarrow> checksFailed e issues s5
      | (Inr measured, s5) \<Rightarrow>
     (let slowThreshold = slowThresholdOf cfg;
          issues = (if measured > slowThreshold
                    then issues @ [\<lparr>issueType = ''Performance'',
                                     issueText = ''Slow page load time: '' @
                                                 showInt (mathRound measured) @ ''ms''\<rparr>]
                    else issues)
      in (Inr issues, s5)))))))"

section \<open>The audit of one site\<close>

record auditData =
  url :: string
  siteName :: string
  timestamp :: int
  pages :: "pageCapture list"
  metricsPerformance :: "metrics option option"
  issues :: "issue list"
  popups :: "popupData option"
  classification :: "string option"
  isShopify :: "bool option"
  outputDirectory :: "string option"

record errorInfo =
  errUrl :: string
  errSiteName :: string
  errTimestamp :: int
  errError :: string
  success :: bool

datatype auditResult = Completed auditData | Failed errorInfo

text \<open>The loop over the discovered links: at most three, each navigated to and captured.\<close>

function captureProductPages ::
  "world \<Rightarrow> string \<Rightarrow> string list \<Rightarrow> nat \<Rightarrow> pageCapture list \<Rightarrow> session \<Rightarrow> pageCapture list outcome"
where
  "captureProductPages w outputDir productLinks i captured s =
     (if i < min 3 (length productLinks)
      then (let productUrl = productLinks ! i
            in case goto w productUrl s of
                 (Inl e, s1) \<Rightarrow> (Inl e, s1)
               | (Inr _, s1) \<Rightarrow>
                   (case capturePage w (''product_'' @ showNat (i + 1) @ ''_desktop'') outputDir s1 of
                      (Inl e, s2) \<Rightarrow> (Inl e, s2)
                    | (Inr productData, s2) \<Rightarrow>
                        captureProductPages w outputDir productLinks (i + 1)
                          (captured @ [productData]) s2))
      else (Inr captured, s))"
  by pat_completeness auto
termination
  by (relation "measure (\<lambda>(w, outputDir, productLinks, i, captured, s). min 3 (length productLinks) - i)")
     auto

declare captureProductPages.simps [simp del]

text \<open>The branch taken for a commerce-like site; \<open>detectEcommerce\<close> runs only when the
  Shopify probe was negative.\<close>

definition captureProducts ::
  "settings \<Rightarrow> world \<Rightarrow> bool \<Rightarrow> string \<Rightarrow> pageCapture list \<Rightarrow> session \<Rightarrow> pageCapture list outcome"
where
  "captureProducts cfg w shopify outputDir captured s0 =
     andThen (if shopify then (Inr True, s0) else detectEcommerce w s0) (\<lambda>commerce s1.
       if commerce
       then andThen (findProductPages cfg w s1) (\<lambda>productLinks s2.
              captureProductPages w outputDir productLinks 0 captured s2)
       else (Inr captured, s1))"

text \<open>\<open>generateReport\<close>: the two files are written in turn; what they hold is not modelled.\<close>

definition generateReport :: "world \<Rightarrow> auditData \<Rightarrow> string \<Rightarrow> session \<Rightarrow> unit outcome" where
  "generateReport w auditData outputDir s0 = andThen (call w s0) (\<lambda>_ s1. call w s1)"

definition replaceDots :: "string \<Rightarrow> string" where
  "replaceDots h = map (\<lambda>c. if c = CHR ''.'' then CHR ''_'' else c) h"

text \<open>The \<open>try\<close> block of \<open>auditWebsite\<close>.\<close>

definition auditWebsiteTry :: "settings \<Rightarrow> world \<Rightarrow> string \<Rightarrow> session \<Rightarrow> auditData outcome" where
  "auditWebsiteTry cfg w u s0 =
     andThen (setViewport w defaultViewport s0) (\<lambda>_ s1.
     andThen (case hostnameOf w u of
                None \<Rightarrow> (Inl (TypeError ''Invalid URL''), s1)
              | Some hostname \<Rightarrow> (Inr (replaceDots hostname), s1)) (\<lambda>site s2.
     let stamp = dateNow w (tick s2);
         tempOutputDir = ''./audits/temp_'' @ site @ ''_'' @ showInt stamp
     in
     andThen (call w s2) (\<lambda>_ s3.
     let auditData = \<lparr>url = u, siteName = site, timestamp = dateNow w (tick s3), pages = [],
                       metricsPerformance = None, issues = [], popups = None,
                       classification = None, isShopify = None, outputDirectory = None\<rparr>
     in
     andThen (goto w u s3) (\<lambda>_ s4.
     andThen (detectShopify w s4) (\<lambda>shopify s5.
     let auditData = auditData\<lparr>isShopify := Some shopify\<rparr> in
     andThen (detectPopupsAndEmailPlatforms w s5) (\<lambda>popupData s6.
     let auditData = auditData\<lparr>popups := Some popupData\<rparr>;
         popupFolder = (if hasPopup popupData then ''popup_detected'' else ''no_popup'');
         finalOutputDir = ''./audits/'' @ popupFolder @ ''/'' @ site @ ''_'' @ showInt stamp
     in
     andThen (call w s6) (\<lambda>_ s7.
     let auditData = auditData\<lparr>classification := Some popupFolder\<rparr>;
         auditData = auditData\<lparr>outputDirectory := Some finalOutputDir\<rparr>
     in
     andThen (capturePage w ''homepage_desktop'' finalOutputDir s7) (\<lambda>homepageData s8.
     let auditData = auditData\<lparr>pages := pages auditData @ [homepageData]\<rparr> in
     andThen (getPerformanceMetrics w s8) (\<lambda>performanceMetrics s9.
     let auditData = auditData\<lparr>metricsPerformance := Some performanceMetrics\<rparr> in
     andThen (captureProducts cfg w shopify finalOutputDir (pages auditData) s9) (\<lambda>captured s10.
     let auditData = auditData\<lparr>pages := captured\<rparr> in
     andThen (setViewport w mobileViewport s10) (\<lambda>_ s11.
     andThen (goto w u s11) (\<lambda>_ s12.
     andThen (capturePage w ''homepage_mobile'' finalOutputDir s12) (\<lambda>mobileData s13.
     let auditData = auditData\<lparr>pages := pages auditData @ [mobileData]\<rparr> in
     andThen (setViewport w defaultViewport s13) (\<lambda>_ s14.
     andThen (runAutomatedChecks cfg w s14) (\<lambda>found s15.
     let auditData = auditData\<lparr>issues := found\<rparr> in
     andThen (generateReport w auditData finalOutputDir s15) (\<lambda>_ s16.
     (Inr auditData, snd (call w s16))))))))))))))))))"

text \<open>
  The handler of \<open>auditWebsite\<close>. \<open>siteName\<close>, \<open>timestamp\<close> and \<open>tempOutputDir\<close> are
  \<open>const\<close> declarations of the \<open>try\<close> block, and their scope ends with that block:
  the handler sees the parameter \<open>url\<close> and the caught error only. Reading an
  identifier that is not in scope throws a \<open>ReferenceError\<close>. The read of
  \<open>tempOutputDir\<close> sits in an inner \<open>try\<close> of its own, the read of \<open>siteName\<close>
  in the returned object literal does not.
\<close>

definition handlerScope :: "string \<Rightarrow> (string \<times> string) list" where
  "handlerScope u = [(''url'', u)]"

definition readIdentifier :: "(string \<times> string) list \<Rightarrow> string \<Rightarrow> error + string" where
  "readIdentifier scope name =
     (case map_of scope name of
        None \<Rightarrow> Inl (ReferenceError (name @ '' is not defined''))
      | Some v \<Rightarrow> Inr v)"

definition auditWebsiteCatch :: "world \<Rightarrow> string \<Rightarrow> error \<Rightarrow> session \<Rightarrow> auditResult outcome" where
  "auditWebsiteCatch w u err s0 =
     (let s1 = (case readIdentifier (handlerScope u) ''tempOutputDir'' of
                  Inl cleanupError \<Rightarrow> s0
                | Inr tempOutputDir \<Rightarrow> snd (call w s0))
      in case readIdentifier (handlerScope u) ''url'' of
           Inl e \<Rightarrow> (Inl e, s1)
         | Inr urlValue \<Rightarrow>
             (case readIdentifier (handlerScope u) ''siteName'' of
                Inl e \<Rightarrow> (Inl e, s1)
              | Inr site \<Rightarrow>
                  (Inr (Failed \<lparr>errUrl = urlValue, errSiteName = site,
                                 errTimestamp = dateNow w (tick s1),
                                 errError = message err, success = False\<rparr>), s1)))"

definition auditWebsite :: "settings \<Rightarrow> world \<Rightarrow> string \<Rightarrow> session \<Rightarrow> auditResult outcome" where
  "auditWebsite cfg w u s0 =
     (case auditWebsiteTry cfg w u s0 of
        (Inl e, s1) \<Rightarrow> auditWebsiteCatch w u e s1
      | (Inr auditData, s1) \<Rightarrow> (Inr (Completed auditData), s1))"

section \<open>The batch runner\<close>

text \<open>
  The loop of \<open>main\<close> with its own \<open>try\<close> around each audit: what \<open>auditWebsite\<close>
  returns is pushed as it is, what it throws becomes a record of the URL and the message.
  The pause between audits changes nothing here.
\<close>

datatype batchRecord = Returned auditResult | Caught string string

fun auditAll ::
  "settings \<Rightarrow> world \<Rightarrow> string list \<Rightarrow> batchRecord list \<Rightarrow> session \<Rightarrow> batchRecord list \<times> session"
where
  "auditAll cfg w [] results s = (results, s)"
| "auditAll cfg w (u # rest) results s =
     (case auditWebsite cfg w u s of
        (Inr result, s1) \<Rightarrow> auditAll cfg w rest (results @ [Returned result]) s1
      | (Inl e, s1) \<Rightarrow> auditAll cfg w rest (results @ [Caught u (message e)]) s1)"

section \<open>The specification's wording, and example inputs\<close>

text \<open>
  The candidate test as the specification words it: visible (non-zero rendered width
  and height, not \<open>display: none\<close>, not \<open>visibility: hidden\<close>), and an email input or
  one of the keywords somewhere in the lowercased text, and more than ten characters
  of text.
\<close>

definition subscriptionKeywords :: "string list" where
  "subscriptionKeywords =
     [''subscribe'', ''newsletter'', ''email'', ''discount'', ''offer'', ''save'']"

definition candidateSpec :: "element \<Rightarrow> bool" where
  "candidateSpec e \<longleftrightarrow>
     (rectWidth e \<noteq> 0 \<and> rectHeight e \<noteq> 0 \<and>
      display e \<noteq> ''none'' \<and> visibility e \<noteq> ''hidden'') \<and>
     (emailInput e \<or>
      (\<exists>k \<in> set subscriptionKeywords. sublist k (toLowerCase (textContent e)))) \<and>
     10 < length (textContent e)"

definition overlay :: "string \<Rightarrow> bool \<Rightarrow> string \<Rightarrow> element" where
  "overlay cls email txt =
     \<lparr>attrs = [(''class'', cls)], rectWidth = 400, rectHeight = 300, display = ''block'',
      visibility = ''visible'', emailInput = email, textContent = txt\<rparr>"

definition blankPage :: page where
  "blankPage =
     \<lparr>quirksMode = False, globals = [], scriptSrcs = [], linkHrefs = [], metaGenerator = None,
      metaDescription = None, elements = [], anchorHrefs = [], bodyText = [], title = [],
      locationHref = [], protocol = ''https:'', h1Texts = [], imagesWithoutAlt = 0,
      imagesLength = 0, linksLength = 0, scriptsLength = 0, navigationEntry = None,
      firstPaint = None, performanceNow = 0\<rparr>"

definition pageWith :: "element list \<Rightarrow> page" where
  "pageWith es = blankPage\<lparr>elements := es\<rparr>"

text \<open>
  The popup type as the specification words it: the signals are looked for together on
  one overlay.
\<close>

definition popupTypeSpec :: "popup list \<Rightarrow> string option" where
  "popupTypeSpec overlays =
     (if overlays = [] then None
      else if list_ex (\<lambda>p. hasEmailInput p \<and> discountText p) overlays
      then Some ''Email + Discount''
      else if list_ex (\<lambda>p. hasEmailInput p \<and> \<not> discountText p) overlays
      then Some ''Email Signup''
      else if list_ex (\<lambda>p. discountText p \<and> \<not> hasEmailInput p) overlays
      then Some ''Discount Offer''
      else Some ''General Popup'')"

definition defaultFinding :: popupData where
  "defaultFinding = \<lparr>hasPopup = False, popupType = None, emailPlatform = None,
                       popupDetails = [], emailPlatformDetails = []\<rparr>"

text \<open>
  Example worlds: every navigation loads the given page; the external call made at one
  chosen tick rejects, or none does.
\<close>

definition noFaults :: "nat \<Rightarrow> error option" where
  "noFaults t = None"

definition faultAt :: "nat \<Rightarrow> string \<Rightarrow> nat \<Rightarrow> error option" where
  "faultAt n msg t = (if t = n then Some (Error msg) else None)"

definition exampleWorld :: "(nat \<Rightarrow> error option) \<Rightarrow> page \<Rightarrow> world" where
  "exampleWorld faults pg =
     \<lparr>throws = faults, serves = (\<lambda>t vp u. pg),
      hostnameOf = (\<lambda>u. if u = ''https://shop.example.com''
                          then Some ''shop.example.com'' else None),
      dateNow = (\<lambda>t. 1700000000000 + int t),
      pathJoin = (\<lambda>d f. d @ ''/'' @ f)\<rparr>"

definition freshSession :: "page \<Rightarrow> session" where
  "freshSession pg = \<lparr>currentViewport = defaultViewport, document = pg, tick = 0\<rparr>"

text \<open>
  The issues each check of the battery pushes, read off \<open>runAutomatedChecks\<close>, and the
  entry its handler pushes.
\<close>

definition errorIssue :: "error \<Rightarrow> issue" where
  "errorIssue e = \<lparr>issueType = ''Error'', issueText = ''Could not complete all checks: '' @ message e\<rparr>"

definition metaIssues :: "page \<Rightarrow> issue list" where
  "metaIssues d = (if metaDescription d = None
                   then [\<lparr>issueType = ''SEO'', issueText = ''Missing meta description''\<rparr>] else [])"

definition altIssues :: "page \<Rightarrow> issue list" where
  "altIssues d = (if imagesWithoutAlt d > 0
                  then [\<lparr>issueType = ''Accessibility'',
                         issueText = showNat (imagesWithoutAlt d) @ '' images missing alt text''\<rparr>] else [])"

definition h1Issues :: "page \<Rightarrow> issue list" where
  "h1Issues d = (if h1Texts d = [] then [\<lparr>issueType = ''SEO'', issueText = ''No H1 tag found''\<rparr>]
                 else if length (h1Texts d) > 1 then [\<lparr>issueType = ''SEO'', issueText = ''Multiple H1 tags found''\<rparr>]
                 else [])"

definition httpsIssues :: "page \<Rightarrow> issue list" where
  "httpsIssues d = (if protocol d \<noteq> ''https:''
                    then [\<lparr>issueType = ''Security'', issueText = ''Site not using HTTPS''\<rparr>] else [])"

definition loadIssues :: "settings \<Rightarrow> page \<Rightarrow> issue list" where
  "loadIssues cfg d =
     (case navigationEntry d of
        None \<Rightarrow> [errorIssue (undefinedRead ''loadEventEnd'')]
      | Some nav \<Rightarrow>
          if loadEventEnd nav - fetchStart nav > slowThresholdOf cfg
          then [\<lparr>issueType = ''Performance'',
                 issueText = ''Slow page load time: '' @
                   showInt (mathRound (loadEventEnd nav - fetchStart nav)) @ ''ms''\<rparr>]
          else [])"



definition defaultSettings :: settings where
  "defaultSettings = \<lparr>maxProductPages = Some 3, slowLoadTime = Some 3000\<rparr>"

definition timedPage :: page where
  "timedPage = blankPage\<lparr>navigationEntry :=
     Some \<lparr>fetchStart = 0, domContentLoadedEventEnd = 800, loadEventEnd = 1200\<rparr>\<rparr>"

text \<open>
  The earlier loop of \<open>main\<close> (\<open>src/index.js\<close>), without a \<open>try\<close> of its own around
  the audit: what \<open>auditWebsite\<close> throws ends the batch.
\<close>

fun auditAllHalting :: "settings \<Rightarrow> world \<Rightarrow> string list \<Rightarrow> session \<Rightarrow> unit outcome" where
  "auditAllHalting cfg w [] s = (Inr (), s)"
| "auditAllHalting cfg w (u # rest) s =
     (case auditWebsite cfg w u s of
        (Inl e, s1) \<Rightarrow> (Inl e, s1)
      | (Inr result, s1) \<Rightarrow> auditAllHalting cfg w rest s1)"

definition popupPage :: page where
  "popupPage = timedPage\<lparr>elements := [overlay ''popup'' True ''Get 20% off your first order'']\<rparr>"

definition timeoutAt :: "nat \<Rightarrow> world" where
  "timeoutAt n = exampleWorld (faultAt n ''Navigation timeout of 30000 ms exceeded'') timedPage"

definition shopUrl :: string where
  "shopUrl = ''https://shop.example.com''"

definition productAnchors :: "string list \<Rightarrow> page" where
  "productAnchors hrefs = timedPage\<lparr>globals := [(''Shopify'', True)], anchorHrefs := hrefs\<rparr>"

text \<open>The names of the pages a completed audit captured, in order.\<close>

definition capturedNames :: "auditResult outcome \<Rightarrow> string list" where
  "capturedNames out =
     (case fst out of Inr (Completed r) \<Rightarrow> map captureName (pages r) | _ \<Rightarrow> [])"

text \<open>The path markers of a product link, as the specification lists them.\<close>

definition productPathMarkers :: "string list" where
  "productPathMarkers = [''/products/'', ''/product/'', ''/shop/'', ''/store/'']"

text \<open>A page in quirks mode holding the given elements.\<close>

definition quirksPage :: "element list \<Rightarrow> page" where
  "quirksPage es = blankPage\<lparr>quirksMode := True, elements := es\<rparr>"

section \<open>Supporting lemmas\<close>

lemmas string_eval =
  toLowerCase_def lowerChar_def asciiLower_def char_of_def bit_Suc_0_iff digitChar_def isSpace_def

lemma startsWith_prefix: "startsWith s p \<longleftrightarrow> prefix p s"
  by (induction s p rule: startsWith.induct) auto

lemma strIncludes_sublist: "strIncludes s sub \<longleftrightarrow> sublist sub s"
proof (induction s)
  case Nil
  then show ?case by (simp add: startsWith_prefix)
next
  case (Cons c cs)
  then show ?case
    by (simp only: strIncludes.simps startsWith_prefix sublist_Cons_right)
qed

lemma qualifies_candidateSpec:
  assumes "0 \<le> rectWidth e" and "0 \<le> rectHeight e"
  shows "qualifies e \<longleftrightarrow> candidateSpec e"
proof -
  have "rectWidth e > 0 \<longleftrightarrow> rectWidth e \<noteq> 0" "rectHeight e > 0 \<longleftrightarrow> rectHeight e \<noteq> 0"
    using assms by auto
  then show ?thesis
    by (simp add: qualifies_def candidateSpec_def subscriptionKeywords_def Let_def
        strIncludes_sublist)
qed

lemma foldl_inspect:
  "foldl (inspectElement sel) acc es = acc @ map (describeElement sel) (filter qualifies es)"
  by (induction es arbitrary: acc) (simp_all add: inspectElement_def)

lemma foldl_selectors:
  "foldl (\<lambda>found sel. foldl (inspectElement sel) found (querySelectorAll doc sel)) acc sels =
   acc @ concat (map (\<lambda>sel. map (describeElement sel)
                               (filter qualifies (querySelectorAll doc sel))) sels)"
  by (induction sels arbitrary: acc) (simp_all add: foldl_inspect)

lemma scanPopups_concat:
  "scanPopups doc =
   concat (map (\<lambda>sel. map (describeElement sel) (filter qualifies (querySelectorAll doc sel)))
             popupSelectors)"
  by (simp add: scanPopups_def foldl_selectors)

lemma length_concat_sum: "length (concat xss) = sum_list (map length xss)"
  by (induction xss) simp_all

lemma count_swap:
  "sum_list (map (\<lambda>sel. length (filter (\<lambda>x. matches q sel x \<and> P x) es)) sels) =
   sum_list (map (\<lambda>e. if P e then length (filter (\<lambda>sel. matches q sel e) sels) else 0) es)"
proof (induction es)
  case Nil
  then show ?case by (induction sels) simp_all
next
  case (Cons e es)
  have split: "sum_list (map (\<lambda>sel. length (filter (\<lambda>x. matches q sel x \<and> P x) (e # es))) sels) =
        (if P e then length (filter (\<lambda>sel. matches q sel e) sels) else 0) +
        sum_list (map (\<lambda>sel. length (filter (\<lambda>x. matches q sel x \<and> P x) es)) sels)"
    by (induction sels) auto
  show ?case by (simp only: split Cons.IH list.map sum_list.Cons)
qed

lemma length_scanPopups:
  "length (scanPopups doc) =
   sum_list (map (\<lambda>e. if qualifies e
                        then length (filter (\<lambda>sel. matches (quirksMode doc) sel e) popupSelectors) else 0)
               (elements doc))"
  by (simp add: scanPopups_concat length_concat_sum comp_def querySelectorAll_def count_swap)

lemma scanPopups_preview: "p \<in> set (scanPopups doc) \<Longrightarrow> length (popupText p) \<le> 200"
  by (auto simp: scanPopups_concat describeElement_def)

text \<open>The scan written out: for each selector in turn, the descriptor of each of its
  matches that passes the test, in document order.\<close>

lemma scanPopups_explicit:
  "scanPopups doc =
     concat (map (\<lambda>sel. map (\<lambda>e. \<lparr>selector = sel, hasEmailInput = emailInput e,
                                     popupText = take 200 (textContent e),
                                     classes = className e, popupId = elementId e,
                                     width = mathRound (rectWidth e),
                                     height = mathRound (rectHeight e)\<rparr>)
                            (filter (\<lambda>e. matches (quirksMode doc) sel e \<and> qualifies e)
                               (elements doc)))
               popupSelectors)"
proof -
  have "describeElement sel = (\<lambda>e. \<lparr>selector = sel, hasEmailInput = emailInput e,
                                     popupText = take 200 (textContent e),
                                     classes = className e, popupId = elementId e,
                                     width = mathRound (rectWidth e),
                                     height = mathRound (rectHeight e)\<rparr>)" for sel
    by (rule ext) (simp add: describeElement_def)
  then show ?thesis
    by (simp add: scanPopups_concat querySelectorAll_def)
qed

lemma example_scan:
  "length (scanPopups (blankPage\<lparr>elements :=
      [overlay ''popup modal'' True ''Get 20% off your first order'']\<rparr>)) = 2"
  by (simp add: length_scanPopups qualifies_def overlay_def popupSelectors_def getAttribute_def
      className_def string_eval blankPage_def)

lemma example_qualifies:
  "filter qualifies [overlay ''popup modal'' True ''Get 20% off your first order''] =
   [overlay ''popup modal'' True ''Get 20% off your first order'']"
  by (simp add: qualifies_def overlay_def string_eval)

section \<open>The popup detector\<close>

text \<open>
  C8. An element the detector scans is recorded as a popup candidate exactly when it is
  visible (rendered width and height not zero, \<open>display\<close> not \<open>none\<close>, \<open>visibility\<close> not
  \<open>hidden\<close>), and has an email input or one of the keywords subscribe, newsletter,
  email, discount, offer, save in its lowercased text, and has more than ten characters
  of text. A rendered box has no negative width or height.
\<close>

theorem popup_candidate_iff:
  assumes "0 \<le> rectWidth e" and "0 \<le> rectHeight e"
  shows "(candidateSpec e \<and> inspectElement sel found e = found @ [describeElement sel e]) \<or>
         (\<not> candidateSpec e \<and> inspectElement sel found e = found)"
  using qualifies_candidateSpec [OF assms] by (simp add: inspectElement_def)

theorem popup_candidate_iff_witness:
  "(0::real) \<le> rectWidth (overlay ''popup'' False ''Subscribe for updates'') \<and>
   (0::real) \<le> rectHeight (overlay ''popup'' False ''Subscribe for updates'') \<and>
   inspectElement (ClassToken ''x'') [] (overlay ''popup'' False ''Subscribe for updates'')
     = [describeElement (ClassToken ''x'') (overlay ''popup'' False ''Subscribe for updates'')] \<and>
   inspectElement (ClassToken ''x'') [] (overlay ''popup'' False ''Subscribe'') = []"
  using popup_candidate_iff [of "overlay ''popup'' False ''Subscribe for updates''"
      "ClassToken ''x''" "[]"]
    popup_candidate_iff [of "overlay ''popup'' False ''Subscribe''" "ClassToken ''x''" "[]"]
  by (simp add: overlay_def candidateSpec_def subscriptionKeywords_def
      strIncludes_sublist [symmetric] string_eval)

text \<open>
  C10. The selectors are evaluated one after the other, so an element that passes the
  test yields one descriptor for each selector of the list it matches. The descriptors
  are exactly these: for each selector of the list in turn, and each element in document
  order that matches it (in a quirks-mode document a class selector matches without
  regard to ASCII case) and passes the test, one descriptor that records that selector,
  whether the element holds an email input, the first 200 characters of its text, its
  class and id attributes and its rounded width and height. Hence the number of
  descriptors is the sum, over the elements that pass, of the number of selectors each
  matches; it can exceed the number of elements that pass, and every descriptor's text
  preview has at most 200 characters.
\<close>

theorem popup_descriptors_per_selector:
  "scanPopups doc =
     concat (map (\<lambda>sel. map (\<lambda>e. \<lparr>selector = sel, hasEmailInput = emailInput e,
                                     popupText = take 200 (textContent e),
                                     classes = className e, popupId = elementId e,
                                     width = mathRound (rectWidth e),
                                     height = mathRound (rectHeight e)\<rparr>)
                            (filter (\<lambda>e. matches (quirksMode doc) sel e \<and> qualifies e)
                               (elements doc)))
               popupSelectors) \<and>
   length (scanPopups doc) =
     sum_list (map (\<lambda>e. if qualifies e
                          then length (filter (\<lambda>sel. matches (quirksMode doc) sel e) popupSelectors)
                          else 0)
                 (elements doc)) \<and>
   (\<forall>p \<in> set (scanPopups doc). length (popupText p) \<le> 200) \<and>
   (\<exists>pg. length (filter qualifies (elements pg)) < length (scanPopups pg))"
proof -
  let ?pg = "blankPage\<lparr>elements :=
      [overlay ''popup modal'' True ''Get 20% off your first order'']\<rparr>"
  have "length (filter qualifies (elements ?pg)) < length (scanPopups ?pg)"
    by (simp only: example_scan) (simp add: example_qualifies)
  then have ex: "\<exists>pg. length (filter qualifies (elements pg)) < length (scanPopups pg)"
    by (rule exI)
  show ?thesis
    using scanPopups_explicit [of doc] length_scanPopups [of doc] scanPopups_preview [of _ doc] ex
    by (intro conjI ballI) auto
qed

theorem popup_descriptors_per_selector_witness:
  "scanPopups (pageWith [overlay ''popup modal'' True ''Get 20% off your first order'']) =
     [\<lparr>selector = AttrContains ''class'' ''popup'', hasEmailInput = True,
       popupText = ''Get 20% off your first order'', classes = ''popup modal'', popupId = [],
       width = 400, height = 300\<rparr>,
      \<lparr>selector = AttrContains ''class'' ''modal'', hasEmailInput = True,
       popupText = ''Get 20% off your first order'', classes = ''popup modal'', popupId = [],
       width = 400, height = 300\<rparr>] \<and>
   list_all (\<lambda>p. length (popupText p) \<le> 200)
     (scanPopups (pageWith [overlay ''popup modal'' True ''Get 20% off your first order''])) \<and>
   map selector (scanPopups (quirksPage [overlay ''Klaviyo-Form'' True ''Get 20% off your first order'']))
     = [ClassToken ''klaviyo-form''] \<and>
   scanPopups (pageWith [overlay ''Klaviyo-Form'' True ''Get 20% off your first order'']) = []"
  using popup_descriptors_per_selector
    [of "pageWith [overlay ''popup modal'' True ''Get 20% off your first order'']"]
  by (simp add: list_all_iff scanPopups_explicit qualifies_def overlay_def popupSelectors_def
      getAttribute_def className_def elementId_def mathRound_def string_eval blankPage_def
      pageWith_def quirksPage_def)

lemma call_cases:
  "call w s = (case throws w (tick s) of
        Some e \<Rightarrow> (Inl e, s\<lparr>tick := Suc (tick s)\<rparr>)
      | None \<Rightarrow> (Inr (), s\<lparr>tick := Suc (tick s)\<rparr>))"
  by (simp add: call_def)

lemma evaluate_cases:
  "evaluate w f s = (case throws w (tick s) of
        Some e \<Rightarrow> (Inl e, s\<lparr>tick := Suc (tick s)\<rparr>)
      | None \<Rightarrow> (f (document s), s\<lparr>tick := Suc (tick s)\<rparr>))"
  by (simp add: evaluate_def call_def andThen_def split: option.splits)

lemma detect_cases:
  "detectPopupsAndEmailPlatforms w s =
     (case throws w (tick s) of
        Some e \<Rightarrow> (Inr defaultFinding, s\<lparr>tick := Suc (tick s)\<rparr>)
      | None \<Rightarrow>
         (case throws w (Suc (tick s)) of
            Some e \<Rightarrow> (Inr (defaultFinding\<lparr>emailPlatformDetails := detectEmailPlatforms (document s),
                              emailPlatform := (case detectEmailPlatforms (document s) of [] \<Rightarrow> None | x # _ \<Rightarrow> Some x)\<rparr>),
                        s\<lparr>tick := Suc (Suc (tick s))\<rparr>)
          | None \<Rightarrow> (Inr \<lparr>hasPopup = scanPopups (document s) \<noteq> [],
                           popupType = (if scanPopups (document s) = [] then None else Some (classifyPopupType (scanPopups (document s)))),
                           emailPlatform = (case detectEmailPlatforms (document s) of [] \<Rightarrow> None | x # _ \<Rightarrow> Some x),
                           popupDetails = scanPopups (document s),
                           emailPlatformDetails = detectEmailPlatforms (document s)\<rparr>,
                      s\<lparr>tick := Suc (Suc (tick s))\<rparr>)))"
  by (auto simp add: detectPopupsAndEmailPlatforms_def evaluate_cases defaultFinding_def Let_def nth_Cons'
      split: option.splits list.splits)

lemma classify_values:
  "classifyPopupType ps = ''Email + Discount'' \<longleftrightarrow> list_ex hasEmailInput ps \<and> list_ex discountText ps"
  "classifyPopupType ps = ''Email Signup'' \<longleftrightarrow> list_ex hasEmailInput ps \<and> \<not> list_ex discountText ps"
  "classifyPopupType ps = ''Discount Offer'' \<longleftrightarrow> \<not> list_ex hasEmailInput ps \<and> list_ex discountText ps"
  "classifyPopupType ps = ''General Popup'' \<longleftrightarrow> \<not> list_ex hasEmailInput ps \<and> \<not> list_ex discountText ps"
  by (simp_all add: classifyPopupType_def Let_def)

lemmas page_eval = pageWith_def blankPage_def overlay_def exampleWorld_def freshSession_def
  noFaults_def faultAt_def scanPopups_concat popupSelectors_def querySelectorAll_def
  qualifies_def describeElement_def getAttribute_def className_def elementId_def mathRound_def
  discountText_def detectEmailPlatforms_def truthy_def scriptSrcContains_def

text \<open>
  C2 (as the code has it). The popup type is None exactly when no overlay was recorded.
  Otherwise it is Email + Discount when some recorded overlay has an email input and
  some recorded overlay, the same or another, has discount text in its preview
  (discount, save, % or off); Email Signup when some overlay has an email input and none
  has discount text; Discount Offer when none has an email input and some has discount
  text; General Popup when no overlay has either.
\<close>

theorem popup_type_across_overlays:
  "\<exists>d s'. detectPopupsAndEmailPlatforms w s = (Inr d, s') \<and>
     (popupType d = None \<longleftrightarrow> popupDetails d = []) \<and>
     (popupType d = Some ''Email + Discount'' \<longleftrightarrow>
        (\<exists>p \<in> set (popupDetails d). hasEmailInput p) \<and> (\<exists>q \<in> set (popupDetails d). discountText q)) \<and>
     (popupType d = Some ''Email Signup'' \<longleftrightarrow>
        (\<exists>p \<in> set (popupDetails d). hasEmailInput p) \<and> \<not> (\<exists>q \<in> set (popupDetails d). discountText q)) \<and>
     (popupType d = Some ''Discount Offer'' \<longleftrightarrow>
        \<not> (\<exists>p \<in> set (popupDetails d). hasEmailInput p) \<and> (\<exists>q \<in> set (popupDetails d). discountText q)) \<and>
     (popupType d = Some ''General Popup'' \<longleftrightarrow>
        popupDetails d \<noteq> [] \<and> \<not> (\<exists>p \<in> set (popupDetails d). hasEmailInput p) \<and>
        \<not> (\<exists>q \<in> set (popupDetails d). discountText q))"
proof (cases "throws w (tick s)")
  case (Some e)
  then show ?thesis by (simp add: detect_cases defaultFinding_def)
next
  case None
  note first = this
  show ?thesis
  proof (cases "throws w (Suc (tick s))")
    case (Some e)
    then show ?thesis using first by (simp add: detect_cases defaultFinding_def)
  next
    case None
    show ?thesis
    proof (cases "scanPopups (document s) = []")
      case True
      then show ?thesis using first None by (simp add: detect_cases)
    next
      case False
      then show ?thesis using first None
        by (simp add: detect_cases classify_values list_ex_iff)
    qed
  qed
qed

theorem popup_type_across_overlays_witness:
  "popupType (projr (fst (detectPopupsAndEmailPlatforms (exampleWorld noFaults blankPage)
        (freshSession (pageWith [overlay ''popup'' True ''Get 20% off your first order'']))))) =
     Some ''Email + Discount'' \<and>
   popupType (projr (fst (detectPopupsAndEmailPlatforms (exampleWorld noFaults blankPage)
        (freshSession (pageWith [overlay ''popup'' True ''Join our mailing list'']))))) =
     Some ''Email Signup'' \<and>
   popupType (projr (fst (detectPopupsAndEmailPlatforms (exampleWorld noFaults blankPage)
        (freshSession (pageWith [overlay ''popup'' False ''limited offer'']))))) =
     Some ''Discount Offer'' \<and>
   popupType (projr (fst (detectPopupsAndEmailPlatforms (exampleWorld noFaults blankPage)
        (freshSession (pageWith [overlay ''popup'' False ''Subscribe for updates'']))))) =
     Some ''General Popup'' \<and>
   popupType (projr (fst (detectPopupsAndEmailPlatforms (exampleWorld noFaults blankPage)
        (freshSession (pageWith []))))) = None"
  using popup_type_across_overlays [of "exampleWorld noFaults blankPage"
      "freshSession (pageWith [overlay ''popup'' True ''Get 20% off your first order''])"]
  by (simp add: detect_cases page_eval classifyPopupType_def string_eval)

text \<open>
  Two overlays, one with an email input and no discount text, one with discount text and
  no email input: the code answers Email + Discount, the per-overlay rule Email Signup.
\<close>

theorem popup_type_per_overlay_counterexample:
  "popupType (projr (fst (detectPopupsAndEmailPlatforms (exampleWorld noFaults blankPage)
        (freshSession (pageWith [overlay ''popup'' True ''Join our mailing list'',
                                 overlay ''popup'' False ''limited offer'']))))) =
     Some ''Email + Discount'' \<and>
   popupTypeSpec (popupDetails (projr (fst (detectPopupsAndEmailPlatforms
        (exampleWorld noFaults blankPage)
        (freshSession (pageWith [overlay ''popup'' True ''Join our mailing list'',
                                 overlay ''popup'' False ''limited offer'']))))))
     = Some ''Email Signup''"
  by (simp add: detect_cases page_eval classifyPopupType_def popupTypeSpec_def string_eval)

text \<open>
  C5 (as the code has it). Popup detection never raises. A fault in the platform probe
  returns the default finding. A fault in the overlay probe returns no popup, no popup
  type and no overlay, and keeps the platforms the first probe found.
\<close>

theorem popup_detection_never_raises:
  "\<exists>d s'. detectPopupsAndEmailPlatforms w s = (Inr d, s') \<and>
     hasPopup d = (popupDetails d \<noteq> []) \<and>
     (throws w (tick s) \<noteq> None \<longrightarrow> d = defaultFinding) \<and>
     (throws w (tick s) = None \<and> throws w (Suc (tick s)) \<noteq> None \<longrightarrow>
        d = defaultFinding\<lparr>emailPlatformDetails := detectEmailPlatforms (document s),
              emailPlatform := (case detectEmailPlatforms (document s) of
                                  [] \<Rightarrow> None | x # _ \<Rightarrow> Some x)\<rparr>)"
  by (cases "throws w (tick s)"; cases "throws w (Suc (tick s))")
     (simp_all add: detect_cases defaultFinding_def)

theorem popup_detection_never_raises_witness:
  "fst (detectPopupsAndEmailPlatforms (exampleWorld (faultAt 0 ''Target closed'') blankPage)
          (freshSession (blankPage\<lparr>globals := [(''klaviyo'', True)]\<rparr>))) = Inr defaultFinding \<and>
   fst (detectPopupsAndEmailPlatforms (exampleWorld (faultAt 1 ''Target closed'') blankPage)
          (freshSession (blankPage\<lparr>globals := [(''klaviyo'', True)]\<rparr>))) =
     Inr (defaultFinding\<lparr>emailPlatformDetails := [''Klaviyo''], emailPlatform := Some ''Klaviyo''\<rparr>)"
  using popup_detection_never_raises [of "exampleWorld (faultAt 0 ''Target closed'') blankPage"
      "freshSession (blankPage\<lparr>globals := [(''klaviyo'', True)]\<rparr>)"]
    popup_detection_never_raises [of "exampleWorld (faultAt 1 ''Target closed'') blankPage"
      "freshSession (blankPage\<lparr>globals := [(''klaviyo'', True)]\<rparr>)"]
  by (simp add: detect_cases page_eval defaultFinding_def)

text \<open>
  The overlay probe rejects on a page where Klaviyo is loaded: the finding returned
  names Klaviyo, so it is not the default finding.
\<close>

theorem popup_detection_default_counterexample:
  "fst (detectPopupsAndEmailPlatforms (exampleWorld (faultAt 1 ''Target closed'') blankPage)
          (freshSession (blankPage\<lparr>globals := [(''klaviyo'', True)]\<rparr>))) =
     Inr \<lparr>hasPopup = False, popupType = None, emailPlatform = Some ''Klaviyo'',
          popupDetails = [], emailPlatformDetails = [''Klaviyo'']\<rparr> \<and>
   fst (detectPopupsAndEmailPlatforms (exampleWorld (faultAt 1 ''Target closed'') blankPage)
          (freshSession (blankPage\<lparr>globals := [(''klaviyo'', True)]\<rparr>))) \<noteq> Inr defaultFinding"
  by (simp add: detect_cases page_eval defaultFinding_def)

section \<open>The check battery\<close>

lemma checks_cases:
  "runAutomatedChecks cfg w s =
     (let d = document s; t = tick s in
      case throws w t of
        Some e \<Rightarrow> (Inr [errorIssue e], s\<lparr>tick := Suc t\<rparr>)
      | None \<Rightarrow>
      (case throws w (Suc t) of
        Some e \<Rightarrow> (Inr (metaIssues d @ [errorIssue e]), s\<lparr>tick := Suc (Suc t)\<rparr>)
      | None \<Rightarrow>
      (case throws w (Suc (Suc t)) of
        Some e \<Rightarrow> (Inr (metaIssues d @ altIssues d @ [errorIssue e]), s\<lparr>tick := Suc (Suc (Suc t))\<rparr>)
      | None \<Rightarrow>
      (case throws w (Suc (Suc (Suc t))) of
        Some e \<Rightarrow> (Inr (metaIssues d @ altIssues d @ h1Issues d @ [errorIssue e]),
                    s\<lparr>tick := Suc (Suc (Suc (Suc t)))\<rparr>)
      | None \<Rightarrow>
      (case throws w (Suc (Suc (Suc (Suc t)))) of
        Some e \<Rightarrow> (Inr (metaIssues d @ altIssues d @ h1Issues d @ httpsIssues d @ [errorIssue e]),
                    s\<lparr>tick := Suc (Suc (Suc (Suc (Suc t))))\<rparr>)
      | None \<Rightarrow>
          (Inr (metaIssues d @ altIssues d @ h1Issues d @ httpsIssues d @ loadIssues cfg d),
           s\<lparr>tick := Suc (Suc (Suc (Suc (Suc t))))\<rparr>))))))"
  by (cases "throws w (tick s)"; cases "throws w (Suc (tick s))";
      cases "throws w (Suc (Suc (tick s)))"; cases "throws w (Suc (Suc (Suc (tick s))))";
      cases "throws w (Suc (Suc (Suc (Suc (tick s)))))")
     (simp_all add: runAutomatedChecks_def evaluate_cases checksFailed_def Let_def errorIssue_def
      metaIssues_def altIssues_def h1Issues_def httpsIssues_def loadIssues_def
      split: option.splits)











section \<open>The audit of one site and the batch\<close>

lemma capture_cases:
  "capturePage w pageName outputDir s =
     (case throws w (tick s) of
        Some e \<Rightarrow> (Inl e, s\<lparr>tick := Suc (tick s)\<rparr>)
      | None \<Rightarrow>
         (case throws w (Suc (tick s)) of
            Some e \<Rightarrow> (Inl e, s\<lparr>tick := Suc (Suc (tick s))\<rparr>)
          | None \<Rightarrow>
              (Inr \<lparr>captureName = pageName, screenshot = pathJoin w outputDir (pageName @ ''.png''),
                    capTitle = title (document s), capUrl = locationHref (document s),
                    description = (case metaDescription (document s) of None \<Rightarrow> [] | Some c \<Rightarrow> c),
                    h1 = (case h1Texts (document s) of [] \<Rightarrow> [] | t # _ \<Rightarrow> t),
                    loadTime = performanceNow (document s)\<rparr>,
               s\<lparr>tick := Suc (Suc (tick s))\<rparr>)))"
  by (simp add: capturePage_def call_def evaluate_cases andThen_def Let_def split: option.splits)

lemma setViewport_cases:
  "setViewport w vp s =
     (case throws w (tick s) of
        Some e \<Rightarrow> (Inl e, s\<lparr>tick := Suc (tick s)\<rparr>)
      | None \<Rightarrow> (Inr (), s\<lparr>tick := Suc (tick s), currentViewport := vp\<rparr>))"
  by (simp add: setViewport_def call_def andThen_def split: option.splits)

lemma goto_cases:
  "goto w u s =
     (case throws w (tick s) of
        Some e \<Rightarrow> (Inl e, s\<lparr>tick := Suc (tick s)\<rparr>)
      | None \<Rightarrow> (Inr (), s\<lparr>tick := Suc (tick s),
                                document := serves w (tick s) (currentViewport s) u\<rparr>))"
  by (simp add: goto_def call_def andThen_def split: option.splits)

lemma andThen_simps:
  "andThen (Inl e, s) k = (Inl e, s)"
  "andThen (Inr x, s) k = k x s"
  by (simp_all add: andThen_def)

lemma andThen_cong_weak: "r = r' \<Longrightarrow> andThen r k = andThen r' k"
  by simp

lemmas on_session =
  call_cases [of _ "\<lparr>currentViewport = v, document = d, tick = n\<rparr>"]
  evaluate_cases [of _ _ "\<lparr>currentViewport = v, document = d, tick = n\<rparr>"]
  setViewport_cases [of _ _ "\<lparr>currentViewport = v, document = d, tick = n\<rparr>"]
  goto_cases [of _ _ "\<lparr>currentViewport = v, document = d, tick = n\<rparr>"]
  capture_cases [of _ _ _ "\<lparr>currentViewport = v, document = d, tick = n\<rparr>"]
  detect_cases [of _ "\<lparr>currentViewport = v, document = d, tick = n\<rparr>"]
  checks_cases [of _ _ "\<lparr>currentViewport = v, document = d, tick = n\<rparr>"]
  for v d n

lemmas audit_eval = auditWebsite_def auditWebsiteTry_def auditWebsiteCatch_def andThen_simps
  on_session
  detectShopify_def detectEcommerce_def getPerformanceMetrics_def findProductPages_def
  captureProducts_def generateReport_def
  readIdentifier_def handlerScope_def Let_def
  exampleWorld_def freshSession_def faultAt_def noFaults_def blankPage_def shopUrl_def
  defaultSettings_def timedPage_def timeoutAt_def popupPage_def overlay_def
  ecommerceIndicators_def string_eval scanPopups_concat popupSelectors_def
  querySelectorAll_def detectEmailPlatforms_def truthy_def scriptSrcContains_def
  qualifies_def describeElement_def getAttribute_def className_def elementId_def
  mathRound_def classifyPopupType_def discountText_def
  metaIssues_def altIssues_def h1Issues_def httpsIssues_def loadIssues_def errorIssue_def
  slowThresholdOf_def

lemma andThen_Inr:
  "andThen r k = (Inr y, s') \<longleftrightarrow> (\<exists>x s1. r = (Inr x, s1) \<and> k x s1 = (Inr y, s'))"
  by (cases r; cases "fst r") (auto simp: andThen_def)

lemma audit_success:
  assumes "auditWebsiteTry cfg w u s0 = (Inr r, s')"
  shows "\<exists>s1 hostname s3 s4 shopify s5 pd s6 s7 hp s8 pm s9 captured s10 s11 s12 mp s13 s14 found s15 s16.
     setViewport w defaultViewport s0 = (Inr (), s1) \<and>
     hostnameOf w u = Some hostname \<and>
     call w s1 = (Inr (), s3) \<and>
     goto w u s3 = (Inr (), s4) \<and>
     detectShopify w s4 = (Inr shopify, s5) \<and>
     detectPopupsAndEmailPlatforms w s5 = (Inr pd, s6) \<and>
     call w s6 = (Inr (), s7) \<and>
     capturePage w ''homepage_desktop''
       (''./audits/'' @ (if hasPopup pd then ''popup_detected'' else ''no_popup'') @ ''/'' @
        replaceDots hostname @ ''_'' @ showInt (dateNow w (tick s1))) s7 = (Inr hp, s8) \<and>
     getPerformanceMetrics w s8 = (Inr pm, s9) \<and>
     captureProducts cfg w shopify
       (''./audits/'' @ (if hasPopup pd then ''popup_detected'' else ''no_popup'') @ ''/'' @
        replaceDots hostname @ ''_'' @ showInt (dateNow w (tick s1))) [hp] s9 = (Inr captured, s10) \<and>
     setViewport w mobileViewport s10 = (Inr (), s11) \<and>
     goto w u s11 = (Inr (), s12) \<and>
     capturePage w ''homepage_mobile''
       (''./audits/'' @ (if hasPopup pd then ''popup_detected'' else ''no_popup'') @ ''/'' @
        replaceDots hostname @ ''_'' @ showInt (dateNow w (tick s1))) s12 = (Inr mp, s13) \<and>
     setViewport w defaultViewport s13 = (Inr (), s14) \<and>
     runAutomatedChecks cfg w s14 = (Inr found, s15) \<and>
     (generateReport w r
       (''./audits/'' @ (if hasPopup pd then ''popup_detected'' else ''no_popup'') @ ''/'' @
        replaceDots hostname @ ''_'' @ showInt (dateNow w (tick s1))) s15 = (Inr (), s16)) \<and>
     s' = snd (call w s16) \<and>
     r = \<lparr>url = u, siteName = replaceDots hostname, timestamp = dateNow w (tick s3),
          pages = captured @ [mp], metricsPerformance = Some pm, issues = found,
          popups = Some pd,
          classification = Some (if hasPopup pd then ''popup_detected'' else ''no_popup''),
          isShopify = Some shopify,
          outputDirectory = Some (''./audits/'' @ (if hasPopup pd then ''popup_detected'' else ''no_popup'') @ ''/'' @
        replaceDots hostname @ ''_'' @ showInt (dateNow w (tick s1)))\<rparr>"
  using assms unfolding auditWebsiteTry_def Let_def andThen_Inr
  by (auto split: option.splits split del: if_split)
lemma set_setInsertionOrder: "set (setInsertionOrder seen xs) = set seen \<union> set xs"
  by (induction xs arbitrary: seen) auto

lemma distinct_setInsertionOrder: "distinct seen \<Longrightarrow> distinct (setInsertionOrder seen xs)"
  by (induction xs arbitrary: seen) auto

lemma set_uniqueValues: "set (uniqueValues xs) = set xs"
  by (simp add: uniqueValues_def set_setInsertionOrder)

lemma distinct_uniqueValues: "distinct (uniqueValues xs)"
  by (simp add: uniqueValues_def distinct_setInsertionOrder)

lemma length_uniqueValues: "length (uniqueValues xs) = card (set xs)"
  using distinct_card [OF distinct_uniqueValues, of xs] by (simp add: set_uniqueValues)

lemma find_cases:
  "findProductPages cfg w s =
     (case throws w (tick s) of
        Some e \<Rightarrow> (Inr [], s\<lparr>tick := Suc (tick s)\<rparr>)
      | None \<Rightarrow> (Inr (uniqueValues (sliceFromStart (maxPagesOf cfg * 2)
                          (filter productHref (anchorHrefs (document s))))),
                 s\<lparr>tick := Suc (tick s)\<rparr>))"
  by (simp add: findProductPages_def evaluate_cases Let_def split: option.splits)


lemma audit_completed:
  "auditWebsite cfg w u s = (Inr (Completed r), s') \<longleftrightarrow> auditWebsiteTry cfg w u s = (Inr r, s')"
  by (cases "auditWebsiteTry cfg w u s"; cases "fst (auditWebsiteTry cfg w u s)")
     (auto simp: auditWebsite_def auditWebsiteCatch_def readIdentifier_def handlerScope_def Let_def)

lemma audit_handler_throws:
  "auditWebsiteTry cfg w u s = (Inl e, s1) \<Longrightarrow>
   auditWebsite cfg w u s = (Inl (ReferenceError ''siteName is not defined''), s1)"
  by (simp add: auditWebsite_def auditWebsiteCatch_def readIdentifier_def handlerScope_def)

text \<open>
  C7. In every completed audit the classification is \<open>popup_detected\<close> when the popup
  finding has \<open>hasPopup\<close> and \<open>no_popup\<close> when it has not; it depends on nothing else
  and has no third value.
\<close>

theorem classification_from_popup:
  assumes "auditWebsite cfg w u s = (Inr (Completed r), s')"
  shows "\<exists>pd. popups r = Some pd \<and>
              classification r = Some (if hasPopup pd then ''popup_detected'' else ''no_popup'')"
proof -
  have "auditWebsiteTry cfg w u s = (Inr r, s')" using assms by (simp only: audit_completed)
  then show ?thesis
    unfolding auditWebsiteTry_def Let_def andThen_Inr
    by (auto split: option.splits split del: if_split)
qed







theorem classification_from_popup_witness:
  "(\<exists>r s'. auditWebsite defaultSettings (exampleWorld noFaults timedPage) shopUrl
              (freshSession blankPage) = (Inr (Completed r), s') \<and>
            classification r = Some ''no_popup'') \<and>
   (\<exists>r s'. auditWebsite defaultSettings (exampleWorld noFaults popupPage) shopUrl
              (freshSession blankPage) = (Inr (Completed r), s') \<and>
            classification r = Some ''popup_detected'')"
proof -
  have "\<exists>r s'. auditWebsite defaultSettings (exampleWorld noFaults timedPage) shopUrl
              (freshSession blankPage) = (Inr (Completed r), s') \<and>
            map_option hasPopup (popups r) = Some False"
    by (simp add: audit_eval cong: andThen_cong_weak prod.case_cong_weak)
  then obtain r s' where
    run: "auditWebsite defaultSettings (exampleWorld noFaults timedPage) shopUrl
              (freshSession blankPage) = (Inr (Completed r), s')"
    and no: "map_option hasPopup (popups r) = Some False"
    by blast
  have first: "classification r = Some ''no_popup''"
    using classification_from_popup [OF run] no by auto
  have "\<exists>r s'. auditWebsite defaultSettings (exampleWorld noFaults popupPage) shopUrl
              (freshSession blankPage) = (Inr (Completed r), s') \<and>
            map_option hasPopup (popups r) = Some True"
    by (simp add: audit_eval cong: andThen_cong_weak prod.case_cong_weak)
  then obtain q t' where
    run2: "auditWebsite defaultSettings (exampleWorld noFaults popupPage) shopUrl
              (freshSession blankPage) = (Inr (Completed q), t')"
    and yes: "map_option hasPopup (popups q) = Some True"
    by blast
  have second: "classification q = Some ''popup_detected''"
    using classification_from_popup [OF run2] yes by auto
  show ?thesis using run first run2 second by blast
qed



text \<open>
  C1. The homepage navigation times out. The handler of \<open>auditWebsite\<close> builds the
  error record from \<open>siteName\<close>, which is out of scope there, so \<open>auditWebsite\<close>
  throws a \<open>ReferenceError\<close> instead of returning the record. The loop of \<open>main\<close>
  with its own \<open>try\<close> records the URL with the message of the \<open>ReferenceError\<close>;
  the loop without it stops at the first site.
\<close>

theorem audit_fault_escapes:
  "fst (auditWebsite defaultSettings (timeoutAt 2) shopUrl (freshSession blankPage)) =
     Inl (ReferenceError ''siteName is not defined'') \<and>
   fst (auditAll defaultSettings (timeoutAt 2) [shopUrl] [] (freshSession blankPage)) =
     [Caught shopUrl ''siteName is not defined''] \<and>
   fst (auditAllHalting defaultSettings (timeoutAt 2) [shopUrl, shopUrl] (freshSession blankPage)) =
     Inl (ReferenceError ''siteName is not defined'')"
  by (simp add: audit_eval cong: andThen_cong_weak prod.case_cong_weak)

section \<open>Product pages\<close>

lemma of_char_lowerChar:
  "(of_char (lowerChar c) :: nat) =
     (if (65 \<le> (of_char c :: nat) \<and> (of_char c :: nat) \<le> 90) \<or>
         (192 \<le> (of_char c :: nat) \<and> (of_char c :: nat) \<le> 222 \<and> (of_char c :: nat) \<noteq> 215)
      then of_char c + 32 else of_char c)"
  by (auto simp: lowerChar_def Let_def of_char_of)

lemma lowerChar_hash: "lowerChar c = CHR ''#'' \<longleftrightarrow> c = CHR ''#''"
proof
  assume "lowerChar c = CHR ''#''"
  then have "(of_char (lowerChar c) :: nat) = 35" by simp
  then have "(of_char c :: nat) = 35"
    by (simp add: of_char_lowerChar split: if_splits)
  then have "(of_char c :: nat) = of_char (CHR ''#'')" by simp
  then show "c = CHR ''#''" by (simp only: of_char_eq_iff)
next
  assume "c = CHR ''#''"
  then show "lowerChar c = CHR ''#''" by (simp add: lowerChar_def)
qed

lemma strIncludes_single: "strIncludes s [c] \<longleftrightarrow> c \<in> set s"
  by (induction s) auto

lemma hash_lower: "strIncludes (toLowerCase u) ''#'' \<longleftrightarrow> CHR ''#'' \<in> set u"
proof -
  have "CHR ''#'' \<in> lowerChar ` set u \<longleftrightarrow> (\<exists>x \<in> set u. lowerChar x = CHR ''#'')"
    by (metis image_iff)
  then show ?thesis
    by (simp add: strIncludes_single toLowerCase_def lowerChar_hash)
qed

lemma productHref_spec:
  "productHref u \<longleftrightarrow>
     (\<exists>k \<in> set productPathMarkers. sublist k (toLowerCase u)) \<and> CHR ''#'' \<notin> set u \<and> prefix ''http'' u"
  by (simp add: productHref_def Let_def productPathMarkers_def hash_lower startsWith_prefix)
     (simp add: strIncludes_sublist)

text \<open>
  C9 (as the code has it). Product discovery never raises and returns distinct URLs: a
  URL is returned exactly when the probe did not fault and the URL is among the first
  2 * maxProductPages hrefs that contain one of the path markers in lowercased form,
  contain no \<open>#\<close> anywhere and start with \<open>http\<close>. A URL with a fragment suffix is
  therefore not a candidate.
\<close>

theorem product_links_kept:
  "\<exists>links s'. findProductPages cfg w s = (Inr links, s') \<and> distinct links \<and>
     (\<forall>u. u \<in> set links \<longleftrightarrow>
        throws w (tick s) = None \<and>
        u \<in> set (sliceFromStart (maxPagesOf cfg * 2)
               (filter (\<lambda>h. (\<exists>k \<in> set productPathMarkers. sublist k (toLowerCase h)) \<and>
                             CHR ''#'' \<notin> set h \<and> prefix ''http'' h)
                  (anchorHrefs (document s)))))"
proof -
  have same: "filter (\<lambda>h. (\<exists>k \<in> set productPathMarkers. sublist k (toLowerCase h)) \<and>
                             CHR ''#'' \<notin> set h \<and> prefix ''http'' h) xs = filter productHref xs" for xs
    by (rule filter_cong) (simp_all only: productHref_spec)
  show ?thesis
    by (cases "throws w (tick s)")
       (simp_all add: find_cases same distinct_uniqueValues set_uniqueValues)
qed

lemmas find_eval = find_cases [of _ _ "\<lparr>currentViewport = v, document = d, tick = n\<rparr>"] for v d n

lemmas product_eval = find_eval productAnchors_def productHref_def sliceFromStart_def
  maxPagesOf_def uniqueValues_def

theorem product_links_kept_witness:
  "fst (findProductPages defaultSettings (exampleWorld noFaults blankPage)
     (freshSession (productAnchors [''https://shop.example.com/products/a'',
        ''https://shop.example.com/#top'', ''mailto:shop@example.com'',
        ''https://shop.example.com/Shop/b'', ''https://shop.example.com/products/a'']))) =
   Inr [''https://shop.example.com/products/a'', ''https://shop.example.com/Shop/b'']"
  using product_links_kept [of defaultSettings "exampleWorld noFaults blankPage"
     "freshSession (productAnchors [''https://shop.example.com/products/a'',
        ''https://shop.example.com/#top'', ''mailto:shop@example.com'',
        ''https://shop.example.com/Shop/b'', ''https://shop.example.com/products/a''])"]
  by (simp add: audit_eval product_eval cong: andThen_cong_weak prod.case_cong_weak)

text \<open>
  An absolute product URL with a fragment suffix is the only anchor of the page: no
  candidate is returned.
\<close>

theorem product_fragment_excluded_counterexample:
  "fst (findProductPages defaultSettings (exampleWorld noFaults blankPage)
     (freshSession (productAnchors [''https://shop.example.com/products/x#reviews'']))) = Inr []"
  by (simp add: audit_eval product_eval cong: andThen_cong_weak prod.case_cong_weak)

lemma loop_result:
  "captureProductPages w dir links i captured s = (Inr res, s') \<Longrightarrow>
   \<exists>new. res = captured @ new \<and> length new = min 3 (length links) - i \<and>
         (\<forall>p \<in> set new. prefix ''product_'' (captureName p))"
proof (induction w dir links i captured s rule: captureProductPages.induct)
  case (1 w dir links i captured s)
  show ?case
  proof (cases "i < min 3 (length links)")
    case False
    then show ?thesis using "1.prems" by (subst (asm) captureProductPages.simps) auto
  next
    case True
    from "1.prems" True obtain u1 s1 pd s2 where
      g: "goto w (links ! i) s = (Inr u1, s1)" and
      c: "capturePage w (''product_'' @ showNat (i + 1) @ ''_desktop'') dir s1 = (Inr pd, s2)" and
      r: "captureProductPages w dir links (i + 1) (captured @ [pd]) s2 = (Inr res, s')"
      by (auto simp: captureProductPages.simps [of w dir links i] Let_def
          split: prod.splits sum.splits)
    have name: "captureName pd = ''product_'' @ showNat (i + 1) @ ''_desktop''"
      using c by (auto simp: capture_cases split: option.splits)
    have "\<exists>new. res = (captured @ [pd]) @ new \<and> length new = min 3 (length links) - (i + 1) \<and>
         (\<forall>p \<in> set new. prefix ''product_'' (captureName p))"
      using "1.IH" [OF True refl g [symmetric] refl c [symmetric] refl r] .
    then obtain new where n: "res = (captured @ [pd]) @ new"
      "length new = min 3 (length links) - (i + 1)"
      "\<forall>p \<in> set new. prefix ''product_'' (captureName p)" by blast
    have "res = captured @ (pd # new)" using n(1) by simp
    moreover have "length (pd # new) = min 3 (length links) - i" using n(2) True by auto
    moreover have "\<forall>p \<in> set (pd # new). prefix ''product_'' (captureName p)"
      using n(3) name by simp
    ultimately show ?thesis by blast
  qed
qed

lemma ecommerce_cases:
  "detectEcommerce w s =
     (Inr (throws w (tick s) = None \<and> ecommerceIndicators (document s)), s\<lparr>tick := Suc (tick s)\<rparr>)"
  by (simp add: detectEcommerce_def evaluate_cases split: option.splits)

lemma products_result:
  assumes "captureProducts cfg w shopify dir captured s = (Inr res, s')"
  shows "\<exists>new. res = captured @ new \<and>
           (\<forall>p \<in> set new. prefix ''product_'' (captureName p)) \<and>
           length new =
             (if (shopify \<or> (throws w (tick s) = None \<and> ecommerceIndicators (document s))) \<and>
                 throws w (if shopify then tick s else Suc (tick s)) = None
              then min 3 (card (set (sliceFromStart (maxPagesOf cfg * 2)
                                       (filter productHref (anchorHrefs (document s))))))
              else 0)"
proof (cases "shopify \<or> (throws w (tick s) = None \<and> ecommerceIndicators (document s))")
  case False
  then have "res = captured" using assms
    by (auto simp: captureProducts_def andThen_def ecommerce_cases)
  then show ?thesis using False by auto
next
  case True
  define s1 where "s1 = (if shopify then s else s\<lparr>tick := Suc (tick s)\<rparr>)"
  obtain links s2 where f: "findProductPages cfg w s1 = (Inr links, s2)"
    by (cases "throws w (tick s1)") (simp_all add: find_cases)
  have run: "captureProductPages w dir links 0 captured s2 = (Inr res, s')"
    using assms True f
    by (cases shopify) (auto simp: captureProducts_def andThen_def ecommerce_cases s1_def)
  from loop_result [OF run] obtain new where n: "res = captured @ new"
    "length new = min 3 (length links) - 0"
    "\<forall>p \<in> set new. prefix ''product_'' (captureName p)" by blast
  have doc: "document s1 = document s" and tk: "tick s1 = (if shopify then tick s else Suc (tick s))"
    by (simp_all add: s1_def)
  have "length links =
        (if throws w (tick s1) = None
         then card (set (sliceFromStart (maxPagesOf cfg * 2)
                           (filter productHref (anchorHrefs (document s)))))
         else 0)"
    using f doc by (cases "throws w (tick s1)") (auto simp: find_cases length_uniqueValues)
  then show ?thesis using n True tk by auto
qed

lemma audit_success_products:
  assumes "auditWebsiteTry cfg w u s0 = (Inr r, s')"
  obtains s1 s3 s4 shopify s5 pd s6 s7 dir hp s8 pm s9 captured s10 s11 s12 mp s13 where
     "setViewport w defaultViewport s0 = (Inr (), s1)"
     "call w s1 = (Inr (), s3)"
     "goto w u s3 = (Inr (), s4)"
     "detectShopify w s4 = (Inr shopify, s5)"
     "detectPopupsAndEmailPlatforms w s5 = (Inr pd, s6)"
     "call w s6 = (Inr (), s7)"
     "capturePage w ''homepage_desktop'' dir s7 = (Inr hp, s8)"
     "getPerformanceMetrics w s8 = (Inr pm, s9)"
     "captureProducts cfg w shopify dir [hp] s9 = (Inr captured, s10)"
     "setViewport w mobileViewport s10 = (Inr (), s11)"
     "goto w u s11 = (Inr (), s12)"
     "capturePage w ''homepage_mobile'' dir s12 = (Inr mp, s13)"
     "pages r = captured @ [mp]" "isShopify r = Some shopify"
  using audit_success [OF assms]
  apply (elim exE conjE)
  apply (rule that)
               apply assumption
              apply assumption
             apply assumption
            apply assumption
           apply assumption
          apply assumption
         apply assumption
        apply assumption
       apply assumption
      apply assumption
     apply assumption
    apply assumption
   apply simp
  apply simp
  done

lemma setViewport_ok:
  "setViewport w vp s = (Inr x, s1) \<Longrightarrow>
   s1 = s\<lparr>tick := Suc (tick s), currentViewport := vp\<rparr>"
  by (cases "throws w (tick s)") (auto simp: setViewport_cases)

lemma call_ok: "call w s = (Inr x, s1) \<Longrightarrow> s1 = s\<lparr>tick := Suc (tick s)\<rparr>"
  by (cases "throws w (tick s)") (auto simp: call_cases)

lemma goto_ok:
  "goto w u s = (Inr x, s1) \<Longrightarrow>
   s1 = s\<lparr>tick := Suc (tick s), document := serves w (tick s) (currentViewport s) u\<rparr>"
  by (cases "throws w (tick s)") (auto simp: goto_cases)

lemma shopify_ok:
  "detectShopify w s = (x, s1) \<Longrightarrow> s1 = s\<lparr>tick := Suc (tick s)\<rparr>"
  by (cases "throws w (tick s)") (auto simp: detectShopify_def evaluate_cases)

lemma detect_ok:
  "detectPopupsAndEmailPlatforms w s = (x, s1) \<Longrightarrow>
   s1 = s\<lparr>tick := tick s + (if throws w (tick s) = None then 2 else 1)\<rparr>"
  by (cases "throws w (tick s)"; cases "throws w (Suc (tick s))") (auto simp: detect_cases)

lemma capture_ok:
  "capturePage w n dir s = (Inr x, s1) \<Longrightarrow>
   s1 = s\<lparr>tick := Suc (Suc (tick s))\<rparr> \<and> captureName x = n"
  by (cases "throws w (tick s)"; cases "throws w (Suc (tick s))") (auto simp: capture_cases)

lemma metrics_ok:
  "getPerformanceMetrics w s = (x, s1) \<Longrightarrow> s1 = s\<lparr>tick := Suc (tick s)\<rparr>"
  by (cases "throws w (tick s)")
     (auto simp: getPerformanceMetrics_def evaluate_cases split: option.splits sum.splits)

text \<open>
  C3 (as the code has it, for the default maximum of three). In a completed audit the
  number of product pages captured is zero when neither the Shopify probe nor the
  commerce probe fired or the discovery probe faulted, and otherwise the minimum of
  maxProductPages and the number of distinct URLs among the first 2 * maxProductPages
  matching anchors of the homepage: the duplicates are removed after that truncation
  and before the cap.
\<close>

theorem product_pages_captured:
  assumes "auditWebsite cfg w u s = (Inr (Completed r), s')" and "maxPagesOf cfg = 3"
  shows "length (filter (\<lambda>p. prefix ''product_'' (captureName p)) (pages r)) =
     (let home = serves w (tick s + 2) defaultViewport u;
          t = tick s + (if throws w (tick s + 4) = None then 10 else 9);
          shopify = (isShopify r = Some True)
      in if (shopify \<or> (throws w t = None \<and> ecommerceIndicators home)) \<and>
            throws w (if shopify then t else Suc t) = None
         then min (nat (maxPagesOf cfg))
                (card (set (sliceFromStart (maxPagesOf cfg * 2)
                              (filter productHref (anchorHrefs home)))))
         else 0)"
proof -
  have "auditWebsiteTry cfg w u s = (Inr r, s')" using assms(1) by (simp only: audit_completed)
  then show ?thesis
  proof (rule audit_success_products)
    fix s1 s3 s4 shopify s5 pd s6 s7 dir hp s8 pm s9 captured s10 s11 s12 mp s13
    assume
    a: "setViewport w defaultViewport s = (Inr (), s1)" and
    b: "call w s1 = (Inr (), s3)" and
    c: "goto w u s3 = (Inr (), s4)" and
    d: "detectShopify w s4 = (Inr shopify, s5)" and
    e: "detectPopupsAndEmailPlatforms w s5 = (Inr pd, s6)" and
    f: "call w s6 = (Inr (), s7)" and
    g: "capturePage w ''homepage_desktop'' dir s7 = (Inr hp, s8)" and
    h: "getPerformanceMetrics w s8 = (Inr pm, s9)" and
    i: "captureProducts cfg w shopify dir [hp] s9 = (Inr captured, s10)" and
    j: "setViewport w mobileViewport s10 = (Inr (), s11)" and
    k: "goto w u s11 = (Inr (), s12)" and
    m: "capturePage w ''homepage_mobile'' dir s12 = (Inr mp, s13)" and
    pg: "pages r = captured @ [mp]" and sh: "isShopify r = Some shopify"
    have s1: "tick s1 = Suc (tick s)" "currentViewport s1 = defaultViewport"
      using setViewport_ok [OF a] by simp_all
    have s3: "tick s3 = tick s + 2" "currentViewport s3 = defaultViewport"
      using call_ok [OF b] s1 by simp_all
    have s4: "tick s4 = tick s + 3" "document s4 = serves w (tick s + 2) defaultViewport u"
      using goto_ok [OF c] s3 by simp_all
    have s5: "tick s5 = tick s + 4" "document s5 = serves w (tick s + 2) defaultViewport u"
      using shopify_ok [OF d] s4 by simp_all
    have s6: "tick s6 = tick s + 4 + (if throws w (tick s + 4) = None then 2 else 1)"
      "document s6 = serves w (tick s + 2) defaultViewport u"
      using detect_ok [OF e] s5 by simp_all
    have s7: "tick s7 = Suc (tick s6)" "document s7 = document s6"
      using call_ok [OF f] by simp_all
    have s8: "tick s8 = Suc (Suc (tick s7))" "document s8 = document s7" "captureName hp = ''homepage_desktop''"
      using capture_ok [OF g] by simp_all
    have s9: "tick s9 = Suc (tick s8)" "document s9 = document s8"
      using metrics_ok [OF h] by simp_all
    have t9: "tick s9 = tick s + (if throws w (tick s + 4) = None then 10 else 9)"
      using s6 s7 s8 s9 by simp
    have d9: "document s9 = serves w (tick s + 2) defaultViewport u"
      using s6 s7 s8 s9 by simp
    have mn: "captureName mp = ''homepage_mobile''" using capture_ok [OF m] by simp
    from products_result [OF i] obtain new where
      n1: "captured = [hp] @ new" and
      n2: "\<forall>p \<in> set new. prefix ''product_'' (captureName p)" and
      n3: "length new =
               (if (shopify \<or> (throws w (tick s9) = None \<and> ecommerceIndicators (document s9))) \<and>
                   throws w (if shopify then tick s9 else Suc (tick s9)) = None
                then min 3 (card (set (sliceFromStart (maxPagesOf cfg * 2)
                                         (filter productHref (anchorHrefs (document s9))))))
                else 0)"
      by blast
    have flt: "filter (\<lambda>p. prefix ''product_'' (captureName p)) (pages r) = new"
      using n1 n2 pg s8(3) mn by (simp add: filter_id_conv)
    have cap: "nat (maxPagesOf cfg) = 3" using assms(2) by simp
    have shp: "(isShopify r = Some True) = shopify" using sh by simp
    show ?thesis
      unfolding Let_def cap shp flt using n3 unfolding t9 d9 .
  qed
qed

lemmas loop_eval =
  captureProductPages.simps [of _ _ _ _ _ "\<lparr>currentViewport = v, document = d, tick = n\<rparr>"] for v d n

lemmas shop_eval = audit_eval product_eval loop_eval showNat.simps capturedNames_def

theorem product_pages_captured_witness:
  "capturedNames (auditWebsite defaultSettings
      (exampleWorld noFaults (productAnchors [''https://shop.example.com/products/a'',
         ''https://shop.example.com/products/b'', ''https://shop.example.com/products/a'']))
      shopUrl (freshSession blankPage)) =
   [''homepage_desktop'', ''product_1_desktop'', ''product_2_desktop'', ''homepage_mobile'']"
proof -
  let ?w = "exampleWorld noFaults (productAnchors [''https://shop.example.com/products/a'',
         ''https://shop.example.com/products/b'', ''https://shop.example.com/products/a''])"
  have "\<exists>r s'. auditWebsite defaultSettings ?w shopUrl (freshSession blankPage) =
           (Inr (Completed r), s') \<and> isShopify r = Some True \<and>
         map captureName (pages r) =
           [''homepage_desktop'', ''product_1_desktop'', ''product_2_desktop'', ''homepage_mobile'']"
    by (simp add: shop_eval cong: andThen_cong_weak prod.case_cong_weak; blast?)
  then obtain r s' where
    run: "auditWebsite defaultSettings ?w shopUrl (freshSession blankPage) = (Inr (Completed r), s')"
    and shop: "isShopify r = Some True"
    and names: "map captureName (pages r) =
           [''homepage_desktop'', ''product_1_desktop'', ''product_2_desktop'', ''homepage_mobile'']"
    by (elim exE conjE)
  have three: "maxPagesOf defaultSettings = 3" by (simp add: maxPagesOf_def defaultSettings_def)
  have "length (filter (\<lambda>p. prefix ''product_'' (captureName p)) (pages r)) = 2"
    using product_pages_captured [OF run three, unfolded length_uniqueValues [symmetric]] shop
    by (simp add: shop_eval Let_def)
  then show ?thesis using run names by (simp add: capturedNames_def)
qed

text \<open>
  The homepage links the same product six times and then two other products: three
  distinct product URLs are discovered, and one product page is captured.
\<close>

theorem product_pages_truncated_counterexample:
  "capturedNames (auditWebsite defaultSettings
      (exampleWorld noFaults (productAnchors [''https://shop.example.com/products/a'',
         ''https://shop.example.com/products/a'', ''https://shop.example.com/products/a'',
         ''https://shop.example.com/products/a'', ''https://shop.example.com/products/a'',
         ''https://shop.example.com/products/a'', ''https://shop.example.com/products/b'',
         ''https://shop.example.com/products/c'']))
      shopUrl (freshSession blankPage)) =
   [''homepage_desktop'', ''product_1_desktop'', ''homepage_mobile''] \<and>
   uniqueValues (filter productHref [''https://shop.example.com/products/a'',
         ''https://shop.example.com/products/a'', ''https://shop.example.com/products/a'',
         ''https://shop.example.com/products/a'', ''https://shop.example.com/products/a'',
         ''https://shop.example.com/products/a'', ''https://shop.example.com/products/b'',
         ''https://shop.example.com/products/c'']) =
   [''https://shop.example.com/products/a'', ''https://shop.example.com/products/b'',
    ''https://shop.example.com/products/c''] \<and>
   maxProductPages defaultSettings = Some 3"
  by (simp add: shop_eval cong: andThen_cong_weak prod.case_cong_weak; blast?)

end
